theory Spec2Isabelle
  imports Main "HOL-Library.Sublist" "HOL-Library.Char_ord" "HOL-Library.List_Lexorder"
begin

section \<open>Common values\<close>

text \<open>
  Go reports failure in three ways in this repository: an \<open>error\<close> value returned to the
  caller, a \<open>panic\<close>, and \<open>log.Fatalf\<close>. Each is a constructor, carrying the message.
\<close>

datatype error = Err string | Panic string | Fatal string

text \<open>Sequencing of steps that may fail: the first error ends the computation.\<close>

definition bindE :: "error + 'a \<Rightarrow> ('a \<Rightarrow> error + 'b) \<Rightarrow> error + 'b" where
  "bindE m k = (case m of Inl err \<Rightarrow> Inl err | Inr a \<Rightarrow> k a)"

text \<open>\<open>strings.HasPrefix(s, prefix)\<close>: \<open>len(s) >= len(prefix) && s[0:len(prefix)] == prefix\<close>.
  On Unix \<open>filepath.HasPrefix\<close> is the same function.\<close>

definition HasPrefix :: "string \<Rightarrow> string \<Rightarrow> bool" where
  "HasPrefix s p = (length s \<ge> length p \<and> take (length p) s = p)"

text \<open>\<open>strings.HasSuffix(s, suffix)\<close>.\<close>

definition HasSuffix :: "string \<Rightarrow> string \<Rightarrow> bool" where
  "HasSuffix s p = (length s \<ge> length p \<and> drop (length s - length p) s = p)"

section \<open>Patches\<close>

text \<open>
  Modelled from the spec: the package \<open>patch\<close> is imported by the sources and is not among
  them. A patch is an insertion before a position or the replacement of a range, addressed
  by offsets into the original text; \<open>StartPos\<close> and \<open>EndPos\<close> give its range, which for an
  insertion is empty.
\<close>

datatype Patch = Insert int string | Replace int int string

fun StartPos :: "Patch \<Rightarrow> int" where
  "StartPos (Insert p t) = p"
| "StartPos (Replace s e t) = s"

fun EndPos :: "Patch \<Rightarrow> int" where
  "EndPos (Insert p t) = p"
| "EndPos (Replace s e t) = e"

type_synonym Patches = "Patch list"

text \<open>The test of the loop body of \<open>appendNoContradict\<close> (instrument.go, 262-263).\<close>

definition contradicts :: "Patch \<Rightarrow> Patch \<Rightarrow> bool" where
  "contradicts toadd p =
     (EndPos toadd \<le> EndPos p \<and> EndPos toadd \<ge> StartPos p \<or>
      StartPos toadd \<le> EndPos p \<and> StartPos toadd \<ge> StartPos p)"

text \<open>The loop of \<open>appendNoContradict\<close>: \<open>None\<close> when it runs to its end, \<open>Some patches\<close> when
  it returns early.\<close>

fun appendNoContradict_loop :: "Patches \<Rightarrow> Patch list \<Rightarrow> Patch \<Rightarrow> Patches option" where
  "appendNoContradict_loop patches [] toadd = None"
| "appendNoContradict_loop patches (p # ps) toadd =
     (if contradicts toadd p then Some patches
      else appendNoContradict_loop patches ps toadd)"

definition appendNoContradict :: "Patches \<Rightarrow> Patch \<Rightarrow> Patches" where
  "appendNoContradict patches toadd =
     (case appendNoContradict_loop patches patches toadd of
        Some r \<Rightarrow> r
      | None \<Rightarrow> patches @ [toadd])"

text \<open>Two ranges overlap when some offset of the original text lies inside both.\<close>

definition ranges_overlap :: "Patch \<Rightarrow> Patch \<Rightarrow> bool" where
  "ranges_overlap a b = (max (StartPos a) (StartPos b) < min (EndPos a) (EndPos b))"

section \<open>Packages and the relevance of imports\<close>

text \<open>The fields of \<open>build.Package\<close> that the sources read.\<close>

record Package =
  ImportPath :: string
  Dir :: string
  Name :: string
  Imports :: "string list"
  TestImports :: "string list"
  XTestImports :: "string list"
  GoFiles :: "string list"
  CgoFiles :: "string list"
  TestGoFiles :: "string list"
  XTestGoFiles :: "string list"

record Instrumentable =
  pkg :: Package
  basepkg :: string
  name :: string

text \<open>\<open>build.IsLocalImport\<close>.\<close>

definition IsLocalImport :: "string \<Rightarrow> bool" where
  "IsLocalImport path =
     (path = ''.'' \<or> path = ''..'' \<or> HasPrefix path ''./'' \<or> HasPrefix path ''../'')"

definition IsInGopath :: "Instrumentable \<Rightarrow> bool" where
  "IsInGopath i = (ImportPath (pkg i) \<noteq> ''.'')"

definition relevantImport :: "Instrumentable \<Rightarrow> string \<Rightarrow> bool" where
  "relevantImport i imp =
     (if basepkg i = ''*'' then True
      else if IsInGopath i \<or> basepkg i \<noteq> '''' then
        HasPrefix imp (basepkg i) \<or> HasPrefix (basepkg i) imp
      else IsLocalImport imp)"

section \<open>The world outside the program\<close>

text \<open>
  The sources call the Go library for everything that touches the file system: \<open>go/build\<close>
  resolves an import path or a directory to a package, \<open>path/filepath\<close> computes paths,
  \<open>os\<close> makes directories and files. Their results are parameters of the model, gathered
  in one record. \<open>guessBasepkg\<close> belongs here too: it asks \<open>repoRootForImportPathStatic\<close>,
  which is not among the sources, and the file system. \<open>ParseFiles\<close> stands for parsing a
  set of files into a patchable package, \<open>writeFiles\<close> for the loop of \<open>instrumentPatchable\<close>
  that creates, patches and prints each file; each returns the error, if any.
\<close>

record Env =
  build_Import :: "string \<Rightarrow> error + Package"
  build_ImportDir :: "string \<Rightarrow> error + Package"
  filepath_Abs :: "string \<Rightarrow> error + string"
  filepath_Base :: "string \<Rightarrow> string"
  filepath_Rel :: "string \<Rightarrow> string \<Rightarrow> error + string"
  filepath_Join :: "string list \<Rightarrow> string"
  guessBasepkg :: "string \<Rightarrow> string"
  ParseFiles :: "string list \<Rightarrow> error option"
  MkdirAll :: "string \<Rightarrow> error option"
  writeFiles :: "Instrumentable \<Rightarrow> string \<Rightarrow> string list \<Rightarrow> error option"

section \<open>Instrumenting the closure of a package\<close>

definition Files :: "Env \<Rightarrow> Instrumentable \<Rightarrow> string list" where
  "Files E i =
     map (\<lambda>file. filepath_Join E [Dir (pkg i), file]) (GoFiles (pkg i) @ CgoFiles (pkg i))"

definition TestFiles :: "Env \<Rightarrow> Instrumentable \<Rightarrow> string list" where
  "TestFiles E i =
     map (\<lambda>file. filepath_Join E [Dir (pkg i), file])
       (GoFiles (pkg i) @ CgoFiles (pkg i) @ TestGoFiles (pkg i))"

definition XTestFiles :: "Env \<Rightarrow> Instrumentable \<Rightarrow> string list" where
  "XTestFiles E i = map (\<lambda>file. filepath_Join E [Dir (pkg i), file]) (XTestGoFiles (pkg i))"

definition Import :: "Env \<Rightarrow> string \<Rightarrow> string \<Rightarrow> error + Instrumentable" where
  "Import E base pkgname =
     (case build_Import E pkgname of
        Inl err \<Rightarrow> Inl err
      | Inr p \<Rightarrow>
          Inr \<lparr>pkg = p,
               basepkg = (if base = '''' then guessBasepkg E (ImportPath p) else base),
               name = pkgname\<rparr>)"

definition ImportDir :: "Env \<Rightarrow> string \<Rightarrow> string \<Rightarrow> error + Instrumentable" where
  "ImportDir E base pkgname =
     (case build_ImportDir E pkgname of
        Inl err \<Rightarrow> Inl err
      | Inr p \<Rightarrow> Inr \<lparr>pkg = p, basepkg = base, name = pkgname\<rparr>)"

definition doimport :: "Env \<Rightarrow> Instrumentable \<Rightarrow> string \<Rightarrow> error + Instrumentable" where
  "doimport E i p =
     (if IsLocalImport p then ImportDir E (basepkg i) (filepath_Join E [Dir (pkg i), p])
      else (case Import E (basepkg i) p of
              Inl err \<Rightarrow> Inl err
            | Inr r \<Rightarrow> Inr (r\<lparr>name := name i\<rparr>)))"

text \<open>\<open>strings.Replace(s, "..", "__", -1)\<close>: every occurrence, left to right, without
  overlap.\<close>

fun replace_dotdot :: "string \<Rightarrow> string" where
  "replace_dotdot (a # b # cs) =
     (if a = CHR ''.'' \<and> b = CHR ''.'' then ''__'' @ replace_dotdot cs
      else a # replace_dotdot (b # cs))"
| "replace_dotdot cs = cs"

text \<open>
  What one run of the instrumenter has done: the map \<open>processed\<close> of the source, and the
  calls of \<open>instrumentPatchable\<close> that reached the output tree, oldest first. A call is
  recorded with the import path of its package, the set of files it instruments (\<open>Files\<close>,
  \<open>TestFiles\<close> or \<open>XTestFiles\<close>) and its directory below the output directory.
\<close>

datatype FileSet = Primary | Tests | XTests

record Written =
  w_pkg :: string
  w_set :: FileSet
  w_dir :: string
  w_files :: "string list"

record Run =
  processed :: "string \<Rightarrow> bool"
  written :: "Written list"

definition instrumentPatchable ::
  "Env \<Rightarrow> Instrumentable \<Rightarrow> string \<Rightarrow> string \<Rightarrow> FileSet \<Rightarrow> string list \<Rightarrow> Run
     \<Rightarrow> error option \<times> Run" where
  "instrumentPatchable E i outdir relpath fset files st =
     (let path =
            (if IsLocalImport relpath then replace_dotdot (filepath_Join E [''locals'', relpath])
             else if relpath \<noteq> '''' then filepath_Join E [''gopath'', ImportPath (pkg i)]
             else '''')
      in case MkdirAll E (filepath_Join E [outdir, path]) of
           Some err \<Rightarrow> (Some err, st)
         | None \<Rightarrow>
             (writeFiles E i (filepath_Join E [outdir, path]) files,
              st\<lparr>written := written st @
                   [\<lparr>w_pkg = ImportPath (pkg i), w_set = fset, w_dir = path, w_files = files\<rparr>]\<rparr>))"

text \<open>Lines 184 to 208 of \<open>instrumentTo\<close>: parse the files of the package and instrument
  them, the test files and the external test files when \<open>istest\<close> is set.\<close>

definition instrumentFiles ::
  "Env \<Rightarrow> Instrumentable \<Rightarrow> bool \<Rightarrow> string \<Rightarrow> string \<Rightarrow> Run \<Rightarrow> error option \<times> Run" where
  "instrumentFiles E i istest outdir relpath st =
     (if \<not> istest then
        (case ParseFiles E (Files E i) of
           Some err \<Rightarrow> (Some err, st)
         | None \<Rightarrow> instrumentPatchable E i outdir relpath Primary (Files E i) st)
      else
        (case ParseFiles E (TestFiles E i) of
           Some err \<Rightarrow> (Some err, st)
         | None \<Rightarrow>
             (case instrumentPatchable E i outdir relpath Tests (TestFiles E i) st of
                (Some err, st1) \<Rightarrow> (Some err, st1)
              | (None, st1) \<Rightarrow>
                  (case ParseFiles E (XTestFiles E i) of
                     Some err \<Rightarrow> (Some err, st1)
                   | None \<Rightarrow> instrumentPatchable E i outdir relpath XTests (XTestFiles E i) st1))))"

text \<open>
  \<open>instrumentTo\<close> calls itself for every relevant import, and nothing in its text bounds the
  depth of the calls. The model counts the depth down from a given number: the result is
  \<open>None\<close> when that number of nested calls is not enough, and \<open>Some\<close> of the returned error
  (\<open>None\<close> for \<open>nil\<close>) and the state otherwise. \<open>instrumentImports\<close> is the pair of loops over
  \<open>Imports\<close>, \<open>TestImports\<close> and \<open>XTestImports\<close>, which visit the three lists one after the
  other.
\<close>

fun instrumentTo ::
    "Env \<Rightarrow> nat \<Rightarrow> Instrumentable \<Rightarrow> Run \<Rightarrow> bool \<Rightarrow> string \<Rightarrow> string
       \<Rightarrow> (error option \<times> Run) option"
  and instrumentImports ::
    "Env \<Rightarrow> nat \<Rightarrow> Instrumentable \<Rightarrow> Run \<Rightarrow> string \<Rightarrow> string \<Rightarrow> string list
       \<Rightarrow> (error option \<times> Run) option"
where
  "instrumentTo E 0 i st istest outdir relpath = None"
| "instrumentTo E (Suc n) i st istest outdir relpath =
     (if processed st (ImportPath (pkg i)) then Some (None, st)
      else
        (case instrumentImports E n i
                (st\<lparr>processed := (processed st)(ImportPath (pkg i) := True)\<rparr>) outdir relpath
                (Imports (pkg i) @ TestImports (pkg i) @ XTestImports (pkg i)) of
           None \<Rightarrow> None
         | Some (Some err, st1) \<Rightarrow> Some (Some err, st1)
         | Some (None, st1) \<Rightarrow> Some (instrumentFiles E i istest outdir relpath st1)))"
| "instrumentImports E n i st outdir relpath [] = Some (None, st)"
| "instrumentImports E n i st outdir relpath (imp # imps) =
     (if relevantImport i imp then
        (case doimport E i imp of
           Inl err \<Rightarrow> Some (Some err, st)
         | Inr p \<Rightarrow>
             (case instrumentTo E n p st False outdir
                     (if IsLocalImport imp then filepath_Join E [relpath, imp] else imp) of
                None \<Rightarrow> None
              | Some (Some err, st1) \<Rightarrow> Some (Some err, st1)
              | Some (None, st1) \<Rightarrow> instrumentImports E n i st1 outdir relpath imps))
      else instrumentImports E n i st outdir relpath imps)"

definition InstrumentTo ::
  "Env \<Rightarrow> nat \<Rightarrow> Instrumentable \<Rightarrow> bool \<Rightarrow> string \<Rightarrow> (error option \<times> Run) option" where
  "InstrumentTo E n i withtests outdir =
     instrumentTo E n i \<lparr>processed = (\<lambda>p. False), written = []\<rparr> withtests outdir ''''"

section \<open>The command line of the Go tool\<close>

type_synonym Flags = "string \<rightharpoonup> string"

record GoCmd =
  WorkDir :: string
  Executable :: string
  Command :: string
  BuildFlags :: Flags
  Params :: "string list"
  ExtraFlags :: "string list"

text \<open>
  Package \<open>flag\<close> of the Go library, as far as \<open>NewGoCmdWithFlags\<close> uses it. A flag set is a
  value of a type \<open>'fs\<close>; defining a flag gives a new flag set or panics (a flag defined
  twice), parsing gives a new flag set or an error, \<open>fs_Args\<close> are the arguments left after
  the flags, \<open>fs_Visit\<close> the flags that were set, each with the text of its value.
\<close>

record 'fs FlagPkg =
  fs_Int :: "'fs \<Rightarrow> string \<Rightarrow> nat \<Rightarrow> error + 'fs"
  fs_Bool :: "'fs \<Rightarrow> string \<Rightarrow> bool \<Rightarrow> error + 'fs"
  fs_String :: "'fs \<Rightarrow> string \<Rightarrow> string \<Rightarrow> error + 'fs"
  fs_Parse :: "'fs \<Rightarrow> string list \<Rightarrow> error + 'fs"
  fs_Args :: "'fs \<Rightarrow> string list"
  fs_Visit :: "'fs \<Rightarrow> (string \<times> string) list"
  NumCPU :: nat

fun FromFlagSet_loop :: "Flags \<Rightarrow> (string \<times> string) list \<Rightarrow> Flags" where
  "FromFlagSet_loop flags [] = flags"
| "FromFlagSet_loop flags ((n, v) # fs) = FromFlagSet_loop (flags(n \<mapsto> v)) fs"

definition FromFlagSet :: "'fs FlagPkg \<Rightarrow> 'fs \<Rightarrow> Flags" where
  "FromFlagSet F fs = FromFlagSet_loop Map.empty (fs_Visit F fs)"

text \<open>\<open>sort.SearchStrings(a, x)\<close> on a sorted slice: the index of the first element that is
  not smaller than \<open>x\<close>, the length of the slice when there is none.\<close>

definition SearchStrings :: "string list \<Rightarrow> string \<Rightarrow> int" where
  "SearchStrings a x = int (length (takeWhile (\<lambda>s. s < x) a))"

fun defineBools :: "'fs FlagPkg \<Rightarrow> string list \<Rightarrow> 'fs \<Rightarrow> error + 'fs" where
  "defineBools F [] fs = Inr fs"
| "defineBools F (f # rest) fs = bindE (fs_Bool F fs f False) (defineBools F rest)"

fun defineStrings :: "'fs FlagPkg \<Rightarrow> string list \<Rightarrow> 'fs \<Rightarrow> error + 'fs" where
  "defineStrings F [] fs = Inr fs"
| "defineStrings F (f # rest) fs = bindE (fs_String F fs f '''') (defineStrings F rest)"

text \<open>
  The loops of the cases \<open>run\<close> and \<open>test\<close>: the arguments after the flags are parameters up
  to the first one at which \<open>stop\<close> holds; from there on the extra flags are taken, at the
  same index, from the arguments of the global flag set (\<open>flag.Args()[i:]\<close>), which panics
  when the index is beyond them.
\<close>

fun splitParams ::
  "(string \<Rightarrow> bool) \<Rightarrow> string list \<Rightarrow> string list \<Rightarrow> nat \<Rightarrow> string list
     \<Rightarrow> error + (string list \<times> string list)" where
  "splitParams stop [] gargs i params = Inr (params, [])"
| "splitParams stop (param # rest) gargs i params =
     (if stop param then
        (if i \<le> length gargs then Inr (params, drop i gargs)
         else Inl (Panic ''slice bounds out of range''))
      else splitParams stop rest gargs (Suc i) (params @ [param]))"

text \<open>\<open>flags\<close> is the flag set passed in, \<open>cl\<close> the global flag set \<open>flag.CommandLine\<close>; both
  are returned as the call leaves them.\<close>

definition NewGoCmdWithFlags ::
  "'fs FlagPkg \<Rightarrow> 'fs \<Rightarrow> 'fs \<Rightarrow> string \<Rightarrow> string list \<Rightarrow> error + (GoCmd \<times> 'fs \<times> 'fs)" where
  "NewGoCmdWithFlags F flags cl workdir args =
     (if length args < 2 then
        Inl (Err ''GoCmd must have at least two arguments (e.g. go build)'')
      else
        bindE
          (if SearchStrings [''build'', ''run'', ''test''] (args ! 1) > - 1 then
             bindE (fs_Int F flags ''p'' (NumCPU F)) (\<lambda>flags1.
             bindE (defineBools F [''x'', ''v'', ''n'', ''a'', ''work''] flags1) (\<lambda>flags2.
             bindE (defineStrings F
                      [''compiler'', ''gccgoflags'', ''gcflags'', ''ldflags'', ''tags''] cl)
               (\<lambda>cl1. Inr (flags2, cl1))))
           else Inr (flags, cl))
          (\<lambda>(flags1, cl1).
        bindE
          (if args ! 1 = ''run'' then Inr flags1
           else if args ! 1 = ''build'' then fs_String F flags1 ''o'' ''''
           else if args ! 1 = ''test'' then defineBools F [''i'', ''c''] flags1
           else Inl (Err ''Currently only build run and test commands supported''))
          (\<lambda>flags2.
        bindE (fs_Parse F flags2 (drop 2 args)) (\<lambda>flags3.
        bindE
          (if args ! 1 = ''buid'' then Inr (fs_Args F flags3, [])
           else if args ! 1 = ''run'' then
             splitParams (\<lambda>param. \<not> HasSuffix param ''.go'') (fs_Args F flags3)
               (fs_Args F cl1) 0 []
           else if args ! 1 = ''test'' then
             splitParams (\<lambda>param. HasPrefix param ''-'') (fs_Args F flags3)
               (fs_Args F cl1) 0 []
           else Inr ([], []))
          (\<lambda>(params, extra).
        Inr (\<lparr>WorkDir = workdir, Executable = args ! 0, Command = args ! 1,
               BuildFlags = FromFlagSet F flags3, Params = params, ExtraFlags = extra\<rparr>,
             flags3, cl1))))))"

definition getOutputFileName :: "Env \<Rightarrow> GoCmd \<Rightarrow> error + string" where
  "getOutputFileName E cmd =
     (if length (Params cmd) > 1 then Inl (Err ''No support for more than a single package'')
      else
        bindE (if length (Params cmd) = 0 then build_ImportDir E (WorkDir cmd)
               else build_Import E (Params cmd ! 0)) (\<lambda>p.
        if Name p \<noteq> ''main'' then
          Inl (Err ''gosloppy should be used for testing packages or producing executables, not for building packages'')
        else
          bindE (filepath_Abs E (Dir p)) (\<lambda>d.
          Inr (filepath_Base E d))))"

text \<open>Reading a missing key of a Go map gives the zero value, here the empty string.\<close>

definition flag_value :: "Flags \<Rightarrow> string \<Rightarrow> string" where
  "flag_value flags k = (case flags k of None \<Rightarrow> '''' | Some v \<Rightarrow> v)"

definition Retarget :: "Env \<Rightarrow> GoCmd \<Rightarrow> string \<Rightarrow> error + GoCmd" where
  "Retarget E cmd newdir =
     bindE (filepath_Rel E newdir (WorkDir cmd)) (\<lambda>rel.
     bindE
       (if Command cmd = ''run'' \<or> Command cmd = ''test'' then Inr (BuildFlags cmd)
        else if Command cmd = ''build'' then
          bindE (if flag_value (BuildFlags cmd) ''o'' = '''' then getOutputFileName E cmd
                 else Inr (flag_value (BuildFlags cmd) ''o'')) (\<lambda>v.
          Inr ((BuildFlags cmd)(''o'' \<mapsto> filepath_Join E [rel, v])))
        else Inl (Err ''No support for commands other than build test or run''))
       (\<lambda>buildflags.
     Inr \<lparr>WorkDir = newdir, Executable = Executable cmd, Command = Command cmd,
          BuildFlags = buildflags, Params = Params cmd, ExtraFlags = ExtraFlags cmd\<rparr>))"

text \<open>
  One state of a run follows another when nothing was removed from \<open>processed\<close> and the
  calls recorded in between are distinct, each for a package that was not processed before
  and is processed after.
\<close>

definition grows :: "Run \<Rightarrow> Run \<Rightarrow> bool" where
  "grows st st' \<longleftrightarrow>
     (\<forall>p. processed st p \<longrightarrow> processed st' p) \<and>
     (\<exists>new. written st' = written st @ new \<and> distinct (map (\<lambda>w. (w_pkg w, w_set w)) new) \<and>
        (\<forall>w \<in> set new. \<not> processed st (w_pkg w) \<and> processed st' (w_pkg w)))"

text \<open>Every package that \<open>doimport\<close> can return has its import path in \<open>U\<close>.\<close>

definition closedE :: "Env \<Rightarrow> string set \<Rightarrow> bool" where
  "closedE E U \<longleftrightarrow> (\<forall>q imp r. doimport E q imp = Inr r \<longrightarrow> ImportPath (pkg r) \<in> U)"

section \<open>Syntax trees\<close>

text \<open>
  The syntax tree of package \<open>go/ast\<close>, as far as the walker and the passes look at it. An
  interface value that is \<open>nil\<close> is a constructor of its own (\<open>NilExpr\<close>, \<open>NilStmt\<close>); a node
  of a kind that the walker has no case for is \<open>OtherExpr\<close> or \<open>OtherStmt\<close>. A field list
  that is \<open>nil\<close> is the empty list, which the walker treats alike. \<open>DeclStmt\<close> carries the
  specifications of its \<open>GenDecl\<close>; \<open>BadDeclStmt\<close> is a declaration statement whose
  declaration is not a \<open>GenDecl\<close>. An object has a kind, a name, and a number that tells
  objects of the same name apart, as the address of the object does in Go.
\<close>

datatype ObjKind = Bad | Pkg | Con | Typ | Var | Fun

datatype Object = Object (Kind: ObjKind) (ObjName: string) (Decl: nat)

datatype Ident = Ident (IdName: string) (Obj: "Object option")

datatype Token = DEFINE | ASSIGN | OtherTok

datatype Expr =
    NilExpr
  | IdentExpr Ident
  | BasicLit string
  | OtherExpr
  | Ellipsis Expr
  | FuncLit "Field list" "Field list" Stmt
  | BadExpr
  | ParenExpr Expr
  | SelectorExpr Expr Ident
  | IndexExpr Expr Expr
  | SliceExpr Expr Expr Expr
  | TypeAssertExpr Expr Expr
  | CallExpr Expr "Expr list"
  | StarExpr Expr
  | UnaryExpr Expr
  | BinaryExpr Expr Expr
  | KeyValueExpr Expr Expr
and Field = Field (Names: "Ident list") (Type: Expr)
and Spec =
    TypeSpec Ident Expr
  | ValueSpec "Ident list" "Expr list"
  | ImportSpec
and Stmt =
    NilStmt
  | OtherStmt
  | ExprStmt Expr
  | IncDecStmt Expr
  | ReturnStmt "Expr list"
  | AssignStmt "Expr list" Token "Expr list"
  | DeclStmt "Spec list"
  | BadDeclStmt
  | SendStmt Expr Expr
  | DeferStmt Expr
  | GoStmt Expr
  | LabeledStmt Stmt
  | BranchStmt
  | IfStmt Stmt Expr Stmt Stmt
  | ForStmt Stmt Expr Stmt Stmt
  | RangeStmt Expr Expr Token Expr Stmt
  | CaseClause "Expr list" "Stmt list"
  | SwitchStmt Stmt Expr Stmt
  | TypeSwitchStmt Stmt Stmt Stmt
  | CommClause Stmt "Stmt list"
  | SelectStmt Stmt
  | BlockStmt "Stmt list"

text \<open>A top-level declaration: a function with its receiver, if any, its parameters and
  its body, if any; a general declaration with its specifications; anything else.\<close>

datatype Decl =
    FuncDecl "Field list option" Ident "Field list" "Stmt option"
  | GenDecl "Spec list"
  | BadDecl

section \<open>Scopes\<close>

text \<open>
  \<open>ast.Scope\<close> is a table of objects with a pointer to the enclosing scope. Scopes are
  compared by address and filled after they are made, so they live in a store: the list of
  all scopes made so far, in the order of their making. A pointer to a scope is its index
  in the store, \<open>None\<close> is the \<open>nil\<close> pointer. \<open>ast.NewScope\<close>, the only way to make a scope,
  takes the enclosing scope, which exists already: the enclosing scope of a scope has a
  smaller index. \<open>outer_ptr\<close> reads the pointer to the enclosing scope; a pointer that
  breaks this order cannot be built and is read as \<open>nil\<close>.
\<close>

record Scope =
  Outer :: "nat option"
  Objects :: "string \<rightharpoonup> Object"

definition outer_ptr :: "Scope list \<Rightarrow> nat \<Rightarrow> nat option" where
  "outer_ptr ss i =
     (if i < length ss then
        (case Outer (ss ! i) of None \<Rightarrow> None | Some j \<Rightarrow> if j < i then Some j else None)
      else None)"

text \<open>
  Modelled from the spec: \<open>Lookup\<close> is called by \<open>tempVar\<close> and is not among the sources. A
  scope is a mapping from names to objects with a reference to its enclosing scope, and a
  name resolves to the binding of the nearest scope of the chain that has one.
\<close>

function Lookup :: "Scope list \<Rightarrow> nat option \<Rightarrow> string \<Rightarrow> Object option" where
  "Lookup ss None x = None"
| "Lookup ss (Some i) x =
     (if i < length ss then
        (case Objects (ss ! i) x of
           Some ob \<Rightarrow> Some ob
         | None \<Rightarrow> Lookup ss (outer_ptr ss i) x)
      else None)"
  by pat_completeness auto
termination
  by (relation "measure (\<lambda>(ss, p, x). case p of None \<Rightarrow> 0 | Some i \<Rightarrow> Suc i)")
     (auto simp: outer_ptr_def split: option.splits if_splits)

text \<open>The state of a walk: the store of scopes, and whatever the visitors keep between
  their calls.\<close>

record 'g wstate =
  scopes :: "Scope list"
  vis :: 'g

definition NewScope :: "nat option \<Rightarrow> 'g wstate \<Rightarrow> nat option \<times> 'g wstate" where
  "NewScope outer \<sigma> =
     (Some (length (scopes \<sigma>)),
      \<sigma>\<lparr>scopes := scopes \<sigma> @ [\<lparr>Outer = outer, Objects = Map.empty\<rparr>]\<rparr>)"

text \<open>\<open>Scope.Insert\<close> of \<open>go/ast\<close>: the object is entered under its name unless the name is
  taken.\<close>

definition Scope_Insert :: "Scope \<Rightarrow> Object \<Rightarrow> Scope" where
  "Scope_Insert s ob =
     (case Objects s (ObjName ob) of
        None \<Rightarrow> s\<lparr>Objects := (Objects s)(ObjName ob \<mapsto> ob)\<rparr>
      | Some alt \<Rightarrow> s)"

definition insertToScope :: "nat option \<Rightarrow> Object option \<Rightarrow> 'g wstate \<Rightarrow> error + 'g wstate" where
  "insertToScope scope obj \<sigma> =
     (case obj of
        None \<Rightarrow> Inl (Panic ''nil pointer dereference'')
      | Some ob \<Rightarrow>
          if ObjName ob = ''_'' then Inr \<sigma>
          else if Kind ob = Fun \<and> ObjName ob = ''init'' then Inr \<sigma>
          else (case scope of
                  None \<Rightarrow> Inl (Panic ''nil pointer dereference'')
                | Some i \<Rightarrow>
                    if i < length (scopes \<sigma>) then
                      Inr (\<sigma>\<lparr>scopes := (scopes \<sigma>)[i := Scope_Insert (scopes \<sigma> ! i) ob]\<rparr>)
                    else Inl (Panic ''nil pointer dereference'')))"

text \<open>The type assertion \<open>expr.(*ast.Ident).Obj\<close>.\<close>

definition identObj :: "Expr \<Rightarrow> error + Object option" where
  "identObj e =
     (case e of
        IdentExpr i \<Rightarrow> Inr (Obj i)
      | _ \<Rightarrow> Inl (Panic ''interface conversion: ast.Expr is not *ast.Ident''))"

fun insertIdents :: "nat option \<Rightarrow> Ident list \<Rightarrow> 'g wstate \<Rightarrow> error + 'g wstate" where
  "insertIdents scope [] \<sigma> = Inr \<sigma>"
| "insertIdents scope (n # ns) \<sigma> =
     bindE (insertToScope scope (Obj n) \<sigma>) (\<lambda>\<sigma>1. insertIdents scope ns \<sigma>1)"

fun insertLhs :: "nat option \<Rightarrow> Expr list \<Rightarrow> 'g wstate \<Rightarrow> error + 'g wstate" where
  "insertLhs scope [] \<sigma> = Inr \<sigma>"
| "insertLhs scope (e # es) \<sigma> =
     bindE (identObj e) (\<lambda>ob.
     bindE (insertToScope scope ob \<sigma>) (\<lambda>\<sigma>1.
     insertLhs scope es \<sigma>1))"

section \<open>The scope walker\<close>

text \<open>
  A \<open>ScopeVisitor\<close> is an interface of three methods, each of which returns the visitor to
  go on with, or \<open>nil\<close>. In the model the methods are the fields of a record \<open>V\<close>; a visitor
  is a value \<open>v\<close> of a type \<open>'v\<close>, the answer \<open>nil\<close> is \<open>None\<close>. A method sees the store of
  scopes and may change what the visitors keep (\<open>'g\<close>), not the scopes.
\<close>

record ('v, 'g) ScopeVisitor =
  VisitExpr :: "'v \<Rightarrow> Scope list \<Rightarrow> nat option \<Rightarrow> Expr \<Rightarrow> 'g \<Rightarrow> 'v option \<times> 'g"
  VisitStmt :: "'v \<Rightarrow> Scope list \<Rightarrow> nat option \<Rightarrow> Stmt \<Rightarrow> 'g \<Rightarrow> 'v option \<times> 'g"
  ExitScope :: "'v \<Rightarrow> Scope list \<Rightarrow> nat option \<Rightarrow> 'g \<Rightarrow> 'v option \<times> 'g"

definition callVisitExpr ::
  "('v, 'g) ScopeVisitor \<Rightarrow> 'v \<Rightarrow> nat option \<Rightarrow> Expr \<Rightarrow> 'g wstate \<Rightarrow> 'v option \<times> 'g wstate" where
  "callVisitExpr V v scope e \<sigma> =
     (case VisitExpr V v (scopes \<sigma>) scope e (vis \<sigma>) of (w, g) \<Rightarrow> (w, \<sigma>\<lparr>vis := g\<rparr>))"

definition callVisitStmt ::
  "('v, 'g) ScopeVisitor \<Rightarrow> 'v \<Rightarrow> nat option \<Rightarrow> Stmt \<Rightarrow> 'g wstate \<Rightarrow> 'v option \<times> 'g wstate" where
  "callVisitStmt V v scope s \<sigma> =
     (case VisitStmt V v (scopes \<sigma>) scope s (vis \<sigma>) of (w, g) \<Rightarrow> (w, \<sigma>\<lparr>vis := g\<rparr>))"

definition callExitScope ::
  "('v, 'g) ScopeVisitor \<Rightarrow> 'v \<Rightarrow> nat option \<Rightarrow> 'g wstate \<Rightarrow> 'g wstate" where
  "callExitScope V v scope \<sigma> =
     (case ExitScope V v (scopes \<sigma>) scope (vis \<sigma>) of (w, g) \<Rightarrow> \<sigma>\<lparr>vis := g\<rparr>)"

function exitScopes ::
  "('v, 'g) ScopeVisitor \<Rightarrow> 'v \<Rightarrow> nat option \<Rightarrow> nat option \<Rightarrow> 'g wstate \<Rightarrow> error + 'g wstate" where
  "exitScopes V v inner limit \<sigma> =
     (if inner = limit then Inr \<sigma>
      else (case inner of
              None \<Rightarrow> Inl (Panic ''exitScopes must be bounded'')
            | Some i \<Rightarrow>
                exitScopes V v (outer_ptr (scopes \<sigma>) i) limit (callExitScope V v inner \<sigma>)))"
  by pat_completeness auto
termination
  by (relation "measure (\<lambda>(V, v, inner, limit, \<sigma>). case inner of None \<Rightarrow> 0 | Some i \<Rightarrow> Suc i)")
     (auto simp: outer_ptr_def split: option.splits if_splits)

text \<open>
  \<open>WalkExpr\<close> and \<open>WalkStmt\<close> begin with the call of the visitor: \<open>v = v.VisitExpr(scope, expr)\<close>,
  and return at once when the answer is \<open>nil\<close>. \<open>afterVisitExpr\<close> and \<open>afterVisitStmt\<close> are that
  beginning; their last argument is the rest of the function, the \<open>switch\<close> on the kind of
  node, which gets the visitor that was returned.
\<close>

definition afterVisitExpr ::
  "('v, 'g) ScopeVisitor \<Rightarrow> 'v \<Rightarrow> nat option \<Rightarrow> Expr \<Rightarrow> 'g wstate
     \<Rightarrow> ('v \<Rightarrow> 'g wstate \<Rightarrow> error + 'g wstate) \<Rightarrow> error + 'g wstate" where
  "afterVisitExpr V v scope e \<sigma> k =
     (case callVisitExpr V v scope e \<sigma> of
        (None, \<sigma>1) \<Rightarrow> Inr \<sigma>1
      | (Some w, \<sigma>1) \<Rightarrow> k w \<sigma>1)"

definition afterVisitStmt ::
  "('v, 'g) ScopeVisitor \<Rightarrow> 'v \<Rightarrow> nat option \<Rightarrow> Stmt \<Rightarrow> 'g wstate
     \<Rightarrow> ('v \<Rightarrow> 'g wstate \<Rightarrow> error + (nat option \<times> 'g wstate))
     \<Rightarrow> error + (nat option \<times> 'g wstate)" where
  "afterVisitStmt V v scope s \<sigma> k =
     (case callVisitStmt V v scope s \<sigma> of
        (None, \<sigma>1) \<Rightarrow> Inr (scope, \<sigma>1)
      | (Some w, \<sigma>1) \<Rightarrow> k w \<sigma>1)"

text \<open>
  The walker. \<open>WalkField\<close> is the body of the loop of \<open>WalkFields\<close>, \<open>WalkSpec\<close> the body of
  the loop over the specifications of a declaration statement, which threads \<open>newscope\<close>
  from one specification to the next; \<open>WalkExprs\<close> and \<open>WalkStmts\<close> are the loops over a list
  of expressions and over the statements of a block or clause. \<open>WalkStmt\<close> returns, with the
  state, the scope in which the statements that follow are to be walked.
\<close>

primrec WalkExpr ::
    "('v, 'g) ScopeVisitor \<Rightarrow> 'v \<Rightarrow> Expr \<Rightarrow> nat option \<Rightarrow> 'g wstate \<Rightarrow> error + 'g wstate"
  and WalkExprs ::
    "('v, 'g) ScopeVisitor \<Rightarrow> 'v \<Rightarrow> Expr list \<Rightarrow> nat option \<Rightarrow> 'g wstate \<Rightarrow> error + 'g wstate"
  and WalkField ::
    "('v, 'g) ScopeVisitor \<Rightarrow> 'v \<Rightarrow> Field \<Rightarrow> nat option \<Rightarrow> 'g wstate \<Rightarrow> error + 'g wstate"
  and WalkFields ::
    "('v, 'g) ScopeVisitor \<Rightarrow> 'v \<Rightarrow> Field list \<Rightarrow> nat option \<Rightarrow> 'g wstate \<Rightarrow> error + 'g wstate"
  and WalkSpec ::
    "('v, 'g) ScopeVisitor \<Rightarrow> 'v \<Rightarrow> Spec \<Rightarrow> nat option \<Rightarrow> nat option \<Rightarrow> 'g wstate
       \<Rightarrow> error + (nat option \<times> 'g wstate)"
  and WalkSpecs ::
    "('v, 'g) ScopeVisitor \<Rightarrow> 'v \<Rightarrow> Spec list \<Rightarrow> nat option \<Rightarrow> nat option \<Rightarrow> 'g wstate
       \<Rightarrow> error + (nat option \<times> 'g wstate)"
  and WalkStmt ::
    "('v, 'g) ScopeVisitor \<Rightarrow> 'v \<Rightarrow> Stmt \<Rightarrow> nat option \<Rightarrow> 'g wstate
       \<Rightarrow> error + (nat option \<times> 'g wstate)"
  and WalkStmts ::
    "('v, 'g) ScopeVisitor \<Rightarrow> 'v \<Rightarrow> Stmt list \<Rightarrow> nat option \<Rightarrow> 'g wstate
       \<Rightarrow> error + (nat option \<times> 'g wstate)"
where
  "WalkExpr V v NilExpr scope \<sigma> =
     afterVisitExpr V v scope NilExpr \<sigma> (\<lambda>v \<sigma>. Inr \<sigma>)"
| "WalkExpr V v (IdentExpr i) scope \<sigma> =
     afterVisitExpr V v scope (IdentExpr i) \<sigma> (\<lambda>v \<sigma>. Inr \<sigma>)"
| "WalkExpr V v (BasicLit l) scope \<sigma> =
     afterVisitExpr V v scope (BasicLit l) \<sigma> (\<lambda>v \<sigma>. Inr \<sigma>)"
| "WalkExpr V v OtherExpr scope \<sigma> =
     afterVisitExpr V v scope OtherExpr \<sigma> (\<lambda>v \<sigma>. Inr \<sigma>)"
| "WalkExpr V v (Ellipsis elt) scope \<sigma> =
     afterVisitExpr V v scope (Ellipsis elt) \<sigma> (\<lambda>v \<sigma>.
       if elt \<noteq> NilExpr then WalkExpr V v elt scope \<sigma> else Inr \<sigma>)"
| "WalkExpr V v (FuncLit params results body) scope \<sigma> =
     afterVisitExpr V v scope (FuncLit params results body) \<sigma> (\<lambda>v \<sigma>.
       case NewScope scope \<sigma> of (newscope, \<sigma>1) \<Rightarrow>
         bindE (WalkFields V v params newscope \<sigma>1) (\<lambda>\<sigma>2.
         bindE (WalkFields V v results newscope \<sigma>2) (\<lambda>\<sigma>3.
         bindE (WalkStmt V v body newscope \<sigma>3) (\<lambda>(r, \<sigma>4).
         Inr (callExitScope V v newscope \<sigma>4)))))"
| "WalkExpr V v BadExpr scope \<sigma> =
     afterVisitExpr V v scope BadExpr \<sigma> (\<lambda>v \<sigma>. Inr \<sigma>)"
| "WalkExpr V v (ParenExpr x) scope \<sigma> =
     afterVisitExpr V v scope (ParenExpr x) \<sigma> (\<lambda>v \<sigma>. WalkExpr V v x scope \<sigma>)"
| "WalkExpr V v (SelectorExpr x sel) scope \<sigma> =
     afterVisitExpr V v scope (SelectorExpr x sel) \<sigma> (\<lambda>v \<sigma>.
       bindE (WalkExpr V v x scope \<sigma>) (\<lambda>\<sigma>1.
       afterVisitExpr V v scope (IdentExpr sel) \<sigma>1 (\<lambda>v \<sigma>. Inr \<sigma>)))"
| "WalkExpr V v (IndexExpr x i) scope \<sigma> =
     afterVisitExpr V v scope (IndexExpr x i) \<sigma> (\<lambda>v \<sigma>.
       bindE (WalkExpr V v x scope \<sigma>) (\<lambda>\<sigma>1.
       WalkExpr V v i scope \<sigma>1))"
| "WalkExpr V v (SliceExpr x lo hi) scope \<sigma> =
     afterVisitExpr V v scope (SliceExpr x lo hi) \<sigma> (\<lambda>v \<sigma>.
       bindE (WalkExpr V v x scope \<sigma>) (\<lambda>\<sigma>1.
       bindE (if lo \<noteq> NilExpr then WalkExpr V v lo scope \<sigma>1 else Inr \<sigma>1) (\<lambda>\<sigma>2.
       if hi \<noteq> NilExpr then WalkExpr V v hi scope \<sigma>2 else Inr \<sigma>2)))"
| "WalkExpr V v (TypeAssertExpr x t) scope \<sigma> =
     afterVisitExpr V v scope (TypeAssertExpr x t) \<sigma> (\<lambda>v \<sigma>.
       bindE (WalkExpr V v x scope \<sigma>) (\<lambda>\<sigma>1.
       if t \<noteq> NilExpr then WalkExpr V v t scope \<sigma>1 else Inr \<sigma>1))"
| "WalkExpr V v (CallExpr f args) scope \<sigma> =
     afterVisitExpr V v scope (CallExpr f args) \<sigma> (\<lambda>v \<sigma>.
       bindE (WalkExpr V v f scope \<sigma>) (\<lambda>\<sigma>1.
       WalkExprs V v args scope \<sigma>1))"
| "WalkExpr V v (StarExpr x) scope \<sigma> =
     afterVisitExpr V v scope (StarExpr x) \<sigma> (\<lambda>v \<sigma>. WalkExpr V v x scope \<sigma>)"
| "WalkExpr V v (UnaryExpr x) scope \<sigma> =
     afterVisitExpr V v scope (UnaryExpr x) \<sigma> (\<lambda>v \<sigma>. WalkExpr V v x scope \<sigma>)"
| "WalkExpr V v (BinaryExpr x y) scope \<sigma> =
     afterVisitExpr V v scope (BinaryExpr x y) \<sigma> (\<lambda>v \<sigma>.
       bindE (WalkExpr V v x scope \<sigma>) (\<lambda>\<sigma>1.
       WalkExpr V v y scope \<sigma>1))"
| "WalkExpr V v (KeyValueExpr k x) scope \<sigma> =
     afterVisitExpr V v scope (KeyValueExpr k x) \<sigma> (\<lambda>v \<sigma>.
       bindE (WalkExpr V v k scope \<sigma>) (\<lambda>\<sigma>1.
       WalkExpr V v x scope \<sigma>1))"
| "WalkExprs V v [] scope \<sigma> = Inr \<sigma>"
| "WalkExprs V v (e # es) scope \<sigma> =
     bindE (WalkExpr V v e scope \<sigma>) (\<lambda>\<sigma>1. WalkExprs V v es scope \<sigma>1)"
| "WalkField V v (Field names t) scope \<sigma> =
     bindE (insertIdents scope names \<sigma>) (\<lambda>\<sigma>1. WalkExpr V v t scope \<sigma>1)"
| "WalkFields V v [] scope \<sigma> = Inr \<sigma>"
| "WalkFields V v (f # fs) scope \<sigma> =
     bindE (WalkField V v f scope \<sigma>) (\<lambda>\<sigma>1. WalkFields V v fs scope \<sigma>1)"
| "WalkSpec V v (TypeSpec n t) scope newscope \<sigma> =
     (case NewScope newscope \<sigma> of (newscope1, \<sigma>1) \<Rightarrow>
        bindE (insertToScope newscope1 (Obj n) \<sigma>1) (\<lambda>\<sigma>2.
        bindE (WalkExpr V v t scope \<sigma>2) (\<lambda>\<sigma>3.
        Inr (newscope1, \<sigma>3))))"
| "WalkSpec V v (ValueSpec names vals) scope newscope \<sigma> =
     (case NewScope newscope \<sigma> of (newscope1, \<sigma>1) \<Rightarrow>
        bindE (insertIdents newscope1 names \<sigma>1) (\<lambda>\<sigma>2.
        bindE (WalkExprs V v vals scope \<sigma>2) (\<lambda>\<sigma>3.
        Inr (newscope1, \<sigma>3))))"
| "WalkSpec V v ImportSpec scope newscope \<sigma> =
     (case NewScope newscope \<sigma> of (newscope1, \<sigma>1) \<Rightarrow>
        Inl (Panic ''cannot have an import in a statement (or so I hope)''))"
| "WalkSpecs V v [] scope newscope \<sigma> = Inr (newscope, \<sigma>)"
| "WalkSpecs V v (spec # specs) scope newscope \<sigma> =
     bindE (WalkSpec V v spec scope newscope \<sigma>) (\<lambda>(newscope1, \<sigma>1).
     WalkSpecs V v specs scope newscope1 \<sigma>1)"
| "WalkStmt V v NilStmt scope \<sigma> =
     afterVisitStmt V v scope NilStmt \<sigma> (\<lambda>v \<sigma>. Inl (Fatal ''Cannot understand''))"
| "WalkStmt V v OtherStmt scope \<sigma> =
     afterVisitStmt V v scope OtherStmt \<sigma> (\<lambda>v \<sigma>. Inl (Fatal ''Cannot understand''))"
| "WalkStmt V v (ExprStmt x) scope \<sigma> =
     afterVisitStmt V v scope (ExprStmt x) \<sigma> (\<lambda>v \<sigma>.
       bindE (WalkExpr V v x scope \<sigma>) (\<lambda>\<sigma>1. Inr (scope, \<sigma>1)))"
| "WalkStmt V v (IncDecStmt x) scope \<sigma> =
     afterVisitStmt V v scope (IncDecStmt x) \<sigma> (\<lambda>v \<sigma>.
       bindE (WalkExpr V v x scope \<sigma>) (\<lambda>\<sigma>1. Inr (scope, \<sigma>1)))"
| "WalkStmt V v (ReturnStmt results) scope \<sigma> =
     afterVisitStmt V v scope (ReturnStmt results) \<sigma> (\<lambda>v \<sigma>.
       bindE (WalkExprs V v results scope \<sigma>) (\<lambda>\<sigma>1. Inr (scope, \<sigma>1)))"
| "WalkStmt V v (AssignStmt lhs tok rhs) scope \<sigma> =
     afterVisitStmt V v scope (AssignStmt lhs tok rhs) \<sigma> (\<lambda>v \<sigma>.
       if tok = DEFINE then
         (case NewScope scope \<sigma> of (newscope, \<sigma>1) \<Rightarrow>
            bindE (WalkExprs V v rhs scope \<sigma>1) (\<lambda>\<sigma>2.
            bindE (insertLhs newscope lhs \<sigma>2) (\<lambda>\<sigma>3.
            Inr (newscope, \<sigma>3))))
       else
         bindE (WalkExprs V v lhs scope \<sigma>) (\<lambda>\<sigma>1.
         bindE (WalkExprs V v rhs scope \<sigma>1) (\<lambda>\<sigma>2.
         Inr (scope, \<sigma>2))))"
| "WalkStmt V v (DeclStmt specs) scope \<sigma> =
     afterVisitStmt V v scope (DeclStmt specs) \<sigma> (\<lambda>v \<sigma>.
       WalkSpecs V v specs scope scope \<sigma>)"
| "WalkStmt V v BadDeclStmt scope \<sigma> =
     afterVisitStmt V v scope BadDeclStmt \<sigma> (\<lambda>v \<sigma>.
       Inl (Panic ''only GenDecl can appear in statement''))"
| "WalkStmt V v (SendStmt c x) scope \<sigma> =
     afterVisitStmt V v scope (SendStmt c x) \<sigma> (\<lambda>v \<sigma>.
       bindE (WalkExpr V v c scope \<sigma>) (\<lambda>\<sigma>1.
       bindE (WalkExpr V v x scope \<sigma>1) (\<lambda>\<sigma>2.
       Inr (scope, \<sigma>2))))"
| "WalkStmt V v (DeferStmt c) scope \<sigma> =
     afterVisitStmt V v scope (DeferStmt c) \<sigma> (\<lambda>v \<sigma>.
       bindE (WalkExpr V v c scope \<sigma>) (\<lambda>\<sigma>1. Inr (scope, \<sigma>1)))"
| "WalkStmt V v (GoStmt c) scope \<sigma> =
     afterVisitStmt V v scope (GoStmt c) \<sigma> (\<lambda>v \<sigma>.
       bindE (WalkExpr V v c scope \<sigma>) (\<lambda>\<sigma>1. Inr (scope, \<sigma>1)))"
| "WalkStmt V v (LabeledStmt s) scope \<sigma> =
     afterVisitStmt V v scope (LabeledStmt s) \<sigma> (\<lambda>v \<sigma>.
       bindE (WalkStmt V v s scope \<sigma>) (\<lambda>(r, \<sigma>1). Inr (scope, \<sigma>1)))"
| "WalkStmt V v BranchStmt scope \<sigma> =
     afterVisitStmt V v scope BranchStmt \<sigma> (\<lambda>v \<sigma>. Inr (scope, \<sigma>))"
| "WalkStmt V v (IfStmt init cond body els) scope \<sigma> =
     afterVisitStmt V v scope (IfStmt init cond body els) \<sigma> (\<lambda>v \<sigma>.
       bindE (if init \<noteq> NilStmt then WalkStmt V v init scope \<sigma> else Inr (scope, \<sigma>))
         (\<lambda>(inner, \<sigma>1).
       bindE (WalkExpr V v cond scope \<sigma>1) (\<lambda>\<sigma>2.
       bindE (WalkStmt V v body inner \<sigma>2) (\<lambda>(r, \<sigma>3).
       bindE (if els \<noteq> NilStmt then WalkStmt V v els inner \<sigma>3 else Inr (inner, \<sigma>3))
         (\<lambda>(r, \<sigma>4).
       bindE (exitScopes V v inner scope \<sigma>4) (\<lambda>\<sigma>5.
       Inr (scope, \<sigma>5)))))))"
| "WalkStmt V v (ForStmt init cond post body) scope \<sigma> =
     afterVisitStmt V v scope (ForStmt init cond post body) \<sigma> (\<lambda>v \<sigma>.
       bindE (if init \<noteq> NilStmt then WalkStmt V v init scope \<sigma> else Inr (scope, \<sigma>))
         (\<lambda>(inner, \<sigma>1).
       bindE (if cond \<noteq> NilExpr then WalkExpr V v cond scope \<sigma>1 else Inr \<sigma>1) (\<lambda>\<sigma>2.
       bindE (if post \<noteq> NilStmt then WalkStmt V v post scope \<sigma>2 else Inr (scope, \<sigma>2))
         (\<lambda>(r, \<sigma>3).
       bindE (WalkStmt V v body scope \<sigma>3) (\<lambda>(r, \<sigma>4).
       bindE (exitScopes V v inner scope \<sigma>4) (\<lambda>\<sigma>5.
       Inr (scope, \<sigma>5)))))))"
| "WalkStmt V v (RangeStmt key val tok x body) scope \<sigma> =
     afterVisitStmt V v scope (RangeStmt key val tok x body) \<sigma> (\<lambda>v \<sigma>.
       bindE
         (if tok = ASSIGN then
            bindE (WalkExpr V v key scope \<sigma>) (\<lambda>\<sigma>1.
            bindE (WalkExpr V v val scope \<sigma>1) (\<lambda>\<sigma>2.
            Inr (scope, \<sigma>2)))
          else if tok = DEFINE then
            (case NewScope scope \<sigma> of (inner, \<sigma>1) \<Rightarrow>
               bindE (identObj key) (\<lambda>kob.
               bindE (insertToScope inner kob \<sigma>1) (\<lambda>\<sigma>2.
               if val \<noteq> NilExpr then
                 bindE (identObj val) (\<lambda>vob.
                 bindE (insertToScope inner vob \<sigma>2) (\<lambda>\<sigma>3.
                 Inr (inner, \<sigma>3)))
               else Inr (inner, \<sigma>2))))
          else Inl (Panic ''range statement must have := or = token''))
         (\<lambda>(inner, \<sigma>3).
       bindE (WalkStmt V v body scope \<sigma>3) (\<lambda>(r, \<sigma>4).
       bindE (exitScopes V v inner scope \<sigma>4) (\<lambda>\<sigma>5.
       Inr (scope, \<sigma>5)))))"
| "WalkStmt V v (CaseClause list body) scope \<sigma> =
     afterVisitStmt V v scope (CaseClause list body) \<sigma> (\<lambda>v \<sigma>.
       case NewScope scope \<sigma> of (inner, \<sigma>1) \<Rightarrow>
         bindE (WalkExprs V v list scope \<sigma>1) (\<lambda>\<sigma>2.
         bindE (WalkStmts V v body inner \<sigma>2) (\<lambda>(inner1, \<sigma>3).
         bindE (exitScopes V v inner1 scope \<sigma>3) (\<lambda>\<sigma>4.
         Inr (scope, \<sigma>4)))))"
| "WalkStmt V v (SwitchStmt init tag body) scope \<sigma> =
     afterVisitStmt V v scope (SwitchStmt init tag body) \<sigma> (\<lambda>v \<sigma>.
       bindE (if init \<noteq> NilStmt then WalkStmt V v init scope \<sigma> else Inr (scope, \<sigma>))
         (\<lambda>(inner, \<sigma>1).
       bindE (WalkExpr V v tag scope \<sigma>1) (\<lambda>\<sigma>2.
       bindE (WalkStmt V v body inner \<sigma>2) (\<lambda>(r, \<sigma>3).
       bindE (exitScopes V v inner scope \<sigma>3) (\<lambda>\<sigma>4.
       Inr (scope, \<sigma>4))))))"
| "WalkStmt V v (TypeSwitchStmt init assign body) scope \<sigma> =
     afterVisitStmt V v scope (TypeSwitchStmt init assign body) \<sigma> (\<lambda>v \<sigma>.
       bindE (if init \<noteq> NilStmt then WalkStmt V v init scope \<sigma> else Inr (scope, \<sigma>))
         (\<lambda>(inner, \<sigma>1).
       bindE (WalkStmt V v assign inner \<sigma>1) (\<lambda>(inner1, \<sigma>2).
       bindE (WalkStmt V v body inner1 \<sigma>2) (\<lambda>(r, \<sigma>3).
       bindE (exitScopes V v inner1 scope \<sigma>3) (\<lambda>\<sigma>4.
       Inr (scope, \<sigma>4))))))"
| "WalkStmt V v (CommClause comm body) scope \<sigma> =
     afterVisitStmt V v scope (CommClause comm body) \<sigma> (\<lambda>v \<sigma>.
       bindE (WalkStmt V v comm scope \<sigma>) (\<lambda>(inner, \<sigma>1).
       bindE (WalkStmts V v body inner \<sigma>1) (\<lambda>(inner1, \<sigma>2).
       bindE (exitScopes V v inner1 scope \<sigma>2) (\<lambda>\<sigma>3.
       Inr (scope, \<sigma>3)))))"
| "WalkStmt V v (SelectStmt body) scope \<sigma> =
     afterVisitStmt V v scope (SelectStmt body) \<sigma> (\<lambda>v \<sigma>.
       bindE (WalkStmt V v body scope \<sigma>) (\<lambda>(r, \<sigma>1). Inr (scope, \<sigma>1)))"
| "WalkStmt V v (BlockStmt list) scope \<sigma> =
     afterVisitStmt V v scope (BlockStmt list) \<sigma> (\<lambda>v \<sigma>.
       case NewScope scope \<sigma> of (inner, \<sigma>1) \<Rightarrow>
         bindE (WalkStmts V v list inner \<sigma>1) (\<lambda>(inner1, \<sigma>2).
         bindE (exitScopes V v inner1 scope \<sigma>2) (\<lambda>\<sigma>3.
         Inr (scope, \<sigma>3))))"
| "WalkStmts V v [] inner \<sigma> = Inr (inner, \<sigma>)"
| "WalkStmts V v (s # ss) inner \<sigma> =
     bindE (WalkStmt V v s inner \<sigma>) (\<lambda>(inner1, \<sigma>1). WalkStmts V v ss inner1 \<sigma>1)"

text \<open>The body of the loop of \<open>WalkFile\<close> over the declarations of a file, whose scope is
  \<open>fscope\<close>.\<close>

fun WalkTopSpecs ::
  "('v, 'g) ScopeVisitor \<Rightarrow> 'v \<Rightarrow> Spec list \<Rightarrow> nat option \<Rightarrow> 'g wstate \<Rightarrow> error + 'g wstate" where
  "WalkTopSpecs V v [] fscope \<sigma> = Inr \<sigma>"
| "WalkTopSpecs V v (ValueSpec names vals # specs) fscope \<sigma> =
     bindE (WalkExprs V v vals fscope \<sigma>) (\<lambda>\<sigma>1. WalkTopSpecs V v specs fscope \<sigma>1)"
| "WalkTopSpecs V v (spec # specs) fscope \<sigma> = WalkTopSpecs V v specs fscope \<sigma>"

fun WalkDecl ::
  "('v, 'g) ScopeVisitor \<Rightarrow> 'v \<Rightarrow> Decl \<Rightarrow> nat option \<Rightarrow> 'g wstate \<Rightarrow> error + 'g wstate" where
  "WalkDecl V v (FuncDecl recv nm params body) fscope \<sigma> =
     (case NewScope fscope \<sigma> of (scope, \<sigma>1) \<Rightarrow>
        bindE
          (case recv of
             None \<Rightarrow> Inr \<sigma>1
           | Some [] \<Rightarrow> Inl (Panic ''index out of range'')
           | Some (f # fs) \<Rightarrow>
               (case Names f of
                  [] \<Rightarrow> Inl (Panic ''index out of range'')
                | n # ns \<Rightarrow> insertToScope scope (Obj n) \<sigma>1)) (\<lambda>\<sigma>2.
        bindE (WalkFields V v params scope \<sigma>2) (\<lambda>\<sigma>3.
        bindE
          (case body of
             None \<Rightarrow> Inr \<sigma>3
           | Some b \<Rightarrow> bindE (WalkStmt V v b scope \<sigma>3) (\<lambda>(r, \<sigma>4). Inr \<sigma>4)) (\<lambda>\<sigma>5.
        Inr (callExitScope V v scope \<sigma>5)))))"
| "WalkDecl V v (GenDecl specs) fscope \<sigma> = WalkTopSpecs V v specs fscope \<sigma>"
| "WalkDecl V v BadDecl fscope \<sigma> = Inr \<sigma>"

fun WalkDecls ::
  "('v, 'g) ScopeVisitor \<Rightarrow> 'v \<Rightarrow> Decl list \<Rightarrow> nat option \<Rightarrow> 'g wstate \<Rightarrow> error + 'g wstate" where
  "WalkDecls V v [] fscope \<sigma> = Inr \<sigma>"
| "WalkDecls V v (d # ds) fscope \<sigma> =
     bindE (WalkDecl V v d fscope \<sigma>) (\<lambda>\<sigma>1. WalkDecls V v ds fscope \<sigma>1)"

record File =
  Decls :: "Decl list"
  FileScope :: "nat option"

definition WalkFile ::
  "('v, 'g) ScopeVisitor \<Rightarrow> 'v option \<Rightarrow> File \<Rightarrow> 'g wstate \<Rightarrow> error + 'g wstate" where
  "WalkFile V v file \<sigma> =
     (case v of
        None \<Rightarrow> Inr \<sigma>
      | Some w \<Rightarrow>
          bindE (WalkDecls V w (Decls file) (FileScope file) \<sigma>) (\<lambda>\<sigma>1.
          Inr (callExitScope V w (FileScope file) \<sigma>1)))"

text \<open>
  What a walk leaves of the store it began with. \<open>wstep A ss ss'\<close>: the store has not
  shrunk; the scopes that existed before are as they were, but for those with an index in
  \<open>A\<close>, and these still have the enclosing scope they had; and a binding with the name
  \<open>_\<close>, or of a function with the name \<open>init\<close>, is in the store after only if it was in
  it, in the same scope, before.
\<close>

definition exempt :: "Object \<Rightarrow> bool" where
  "exempt ob \<longleftrightarrow> ObjName ob = ''_'' \<or> (Kind ob = Fun \<and> ObjName ob = ''init'')"

definition wstep :: "nat set \<Rightarrow> Scope list \<Rightarrow> Scope list \<Rightarrow> bool" where
  "wstep A ss ss' \<longleftrightarrow>
     length ss \<le> length ss' \<and>
     (\<forall>i < length ss. i \<notin> A \<longrightarrow> ss' ! i = ss ! i) \<and>
     (\<forall>i < length ss. Outer (ss' ! i) = Outer (ss ! i)) \<and>
     (\<forall>i < length ss'. \<forall>x ob. Objects (ss' ! i) x = Some ob \<and> exempt ob \<longrightarrow>
        i < length ss \<and> Objects (ss ! i) x = Some ob)"

section \<open>The pass for the implicit error check\<close>

text \<open>\<open>fmt.Sprint\<close> of a natural number: its decimal digits.\<close>

function itoa :: "nat \<Rightarrow> string" where
  "itoa n = (if n < 10 then [''0123456789'' ! n] else itoa (n div 10) @ [''0123456789'' ! (n mod 10)])"
  by pat_completeness auto
termination
  by (relation "measure id") auto

text \<open>\<open>fmt.Println\<close> of operands that are already text: a space between each two, and a
  newline at the end.\<close>

fun fmt_Println :: "string list \<Rightarrow> string" where
  "fmt_Println [] = [CHR 0x0A]"
| "fmt_Println [a] = a @ [CHR 0x0A]"
| "fmt_Println (a # b # rest) = a @ '' '' @ fmt_Println (b # rest)"

text \<open>
  The loop of \<open>tempVar\<close>, from the value \<open>tmpvar\<close> of the counter of the visitor: the result
  is the name and the value of the counter on return, or the panic. \<open>fmt.Sprint(stem,
  v.tmpvar)\<close> puts no space between a string and a number.
\<close>

function tempVar :: "Scope list \<Rightarrow> nat \<Rightarrow> string \<Rightarrow> nat option \<Rightarrow> error + (string \<times> nat)" where
  "tempVar ss tmpvar stem scope =
     (if tmpvar < 10 * 1000 then
        (if Lookup ss scope (stem @ itoa tmpvar) = None then Inr (stem @ itoa tmpvar, tmpvar + 1)
         else tempVar ss (tmpvar + 1) stem scope)
      else Inl (Panic ''>100,000 temporary variables used. Either the code is crazy, or I am.''))"
  by pat_completeness auto
termination
  by (relation "measure (\<lambda>(ss, tmpvar, stem, scope). 10 * 1000 - tmpvar)") auto

text \<open>
  Modelled from the spec: \<open>patch.PatchableFile\<close> is not among the sources. The pass asks it
  for the place of a position (file name, line, column) and for the text of an
  expression. The positions of the nodes, which \<open>go/ast\<close> keeps in the tree, are read
  through it as well: the start and the end of an expression and of a statement, the
  position of the assignment token, the end of the file.
\<close>

record PatchableFile =
  Position :: "int \<Rightarrow> string \<times> nat \<times> nat"
  Get :: "Expr \<Rightarrow> string"
  ExprPos :: "Expr \<Rightarrow> int"
  ExprEnd :: "Expr \<Rightarrow> int"
  StmtPos :: "Stmt \<Rightarrow> int"
  StmtEnd :: "Stmt \<Rightarrow> int"
  TokPos :: "Stmt \<Rightarrow> int"
  FileEnd :: int

text \<open>
  A \<open>ShortError\<close> is used through a pointer, and its methods assign to its fields. The
  objects live in a heap, with the buffers that \<open>initTxt\<close> points to; \<open>file\<close> and \<open>patches\<close>
  are the same for all the visitors of one file, so the file is a parameter and the list
  of patches is kept once, next to the lines printed so far.
\<close>

record ShortError =
  stmt :: Stmt
  block :: "Stmt option"
  tmpvar :: nat
  initTxt :: nat

record SEHeap =
  objs :: "ShortError list"
  bufs :: "string list"
  patches :: Patches
  stdout :: "string list"

definition NewShortError :: "nat \<times> SEHeap" where
  "NewShortError =
     (0, \<lparr>objs = [\<lparr>stmt = NilStmt, block = None, tmpvar = 0, initTxt = 0\<rparr>], bufs = [[]],
          patches = [], stdout = []\<rparr>)"

definition MustKeyword :: string where
  "MustKeyword = ''must''"

definition ShortError_tempVar ::
  "nat \<Rightarrow> string \<Rightarrow> Scope list \<Rightarrow> nat option \<Rightarrow> SEHeap \<Rightarrow> error + (string \<times> SEHeap)" where
  "ShortError_tempVar v stem ss scope h =
     (if v < length (objs h) then
        bindE (tempVar ss (tmpvar (objs h ! v)) stem scope) (\<lambda>(nm, k).
        Inr (nm, h\<lparr>objs := (objs h)[v := (objs h ! v)\<lparr>tmpvar := k\<rparr>]\<rparr>))
      else Inl (Panic ''nil pointer dereference''))"

definition addToInit :: "nat \<Rightarrow> string \<Rightarrow> SEHeap \<Rightarrow> SEHeap" where
  "addToInit v txt h =
     h\<lparr>bufs := (bufs h)[initTxt (objs h ! v) := bufs h ! initTxt (objs h ! v) @ txt]\<rparr>"

definition afterImports :: "PatchableFile \<Rightarrow> int" where
  "afterImports file = FileEnd file"

text \<open>The test \<open>fun, ok := expr.Fun.(*ast.Ident); ok && fun.Name == MustKeyword\<close>.\<close>

definition isMust :: "Expr \<Rightarrow> bool" where
  "isMust f = (case f of IdentExpr fn \<Rightarrow> IdName fn = MustKeyword | _ \<Rightarrow> False)"

definition ShortError_VisitExpr ::
  "PatchableFile \<Rightarrow> nat \<Rightarrow> Scope list \<Rightarrow> nat option \<Rightarrow> Expr \<Rightarrow> SEHeap
     \<Rightarrow> error + (nat option \<times> SEHeap)" where
  "ShortError_VisitExpr file v ss scope expr h =
     (case expr of
        CallExpr f args \<Rightarrow>
          if isMust f then
            (if length args \<noteq> 1 then
               (case Position file (ExprPos file f) of (filename, line, column) \<Rightarrow>
                  Inr (None,
                       h\<lparr>stdout := stdout h @
                           [fmt_Println
                              [''%s:%d:%d: '' @ [CHR 0x27] @ ''must'' @ [CHR 0x27] @
                                 '' builtin must be called with exactly one argument'',
                               filename, itoa line, itoa column]]\<rparr>))
             else
               bindE (ShortError_tempVar v ''tmp_'' ss scope h) (\<lambda>(tmpVar, h1).
               bindE (ShortError_tempVar v ''err_'' ss scope h1) (\<lambda>(tmpErr, h2).
               let mustexpr = Get file (args ! 0) in
               if block (objs h2 ! v) = None then
                 (let h3 = addToInit v (''if '' @ tmpErr @ '' != nil {panic('' @ tmpErr @ '')};'') h2
                  in Inr (Some v,
                          h3\<lparr>patches := patches h3 @
                               [Replace (ExprPos file expr) (ExprEnd file expr) tmpVar,
                                Insert (afterImports file)
                                  ('';var '' @ tmpVar @ '', '' @ tmpErr @ '' = '' @ mustexpr)]\<rparr>))
               else
                 Inr (Some v,
                      h2\<lparr>patches := patches h2 @
                           [Insert (StmtPos file (stmt (objs h2 ! v)))
                              (''var '' @ tmpVar @ '', '' @ tmpErr @ '' = '' @ mustexpr @ ''; '' @
                               ''if '' @ tmpErr @ '' != nil {panic('' @ tmpErr @ '')};'')] @
                           [Replace (ExprPos file expr) (ExprEnd file expr) tmpVar]\<rparr>))))
          else Inr (Some v, h)
      | _ \<Rightarrow> Inr (Some v, h))"

text \<open>The loop \<open>for _, arg := range rhs.Args { v.VisitExpr(scope, arg) }\<close>, which drops what
  \<open>VisitExpr\<close> returns.\<close>

fun visitArgs ::
  "PatchableFile \<Rightarrow> nat \<Rightarrow> Scope list \<Rightarrow> nat option \<Rightarrow> Expr list \<Rightarrow> SEHeap \<Rightarrow> error + SEHeap" where
  "visitArgs file v ss scope [] h = Inr h"
| "visitArgs file v ss scope (arg # args) h =
     bindE (ShortError_VisitExpr file v ss scope arg h) (\<lambda>(w, h1).
     visitArgs file v ss scope args h1)"

definition ShortError_VisitStmt ::
  "PatchableFile \<Rightarrow> nat \<Rightarrow> Scope list \<Rightarrow> nat option \<Rightarrow> Stmt \<Rightarrow> SEHeap
     \<Rightarrow> error + (nat option \<times> SEHeap)" where
  "ShortError_VisitStmt file v ss scope s h0 =
     (if v < length (objs h0) then
        (let h = h0\<lparr>objs := (objs h0)[v := (objs h0 ! v)\<lparr>stmt := s\<rparr>]\<rparr> in
         case s of
           BlockStmt list \<Rightarrow>
             Inr (Some (length (objs h)),
                  h\<lparr>objs := objs h @
                       [\<lparr>stmt = stmt (objs h ! v), block = Some s, tmpvar = 0,
                         initTxt = length (bufs h)\<rparr>],
                    bufs := bufs h @ [[]]\<rparr>)
         | AssignStmt lhs tok rhs \<Rightarrow>
             if length rhs \<noteq> 1 then Inr (Some v, h)
             else
               (case rhs ! 0 of
                  CallExpr f args \<Rightarrow>
                    if isMust f then
                      bindE (ShortError_tempVar v ''assignerr_'' ss scope h) (\<lambda>(tmpVar, h1).
                      bindE (visitArgs file v ss scope args
                               (h1\<lparr>patches := patches h1 @
                                     [Insert (TokPos file s) ('', '' @ tmpVar @ '' ''),
                                      Replace (ExprPos file f) (ExprEnd file f) '''',
                                      Insert (StmtEnd file s)
                                        (''; if '' @ tmpVar @ '' != nil '' @
                                         ''{ panic('' @ tmpVar @ '') };'')]\<rparr>)) (\<lambda>h2.
                      Inr (None, h2)))
                    else Inr (Some v, h)
                | _ \<Rightarrow> Inr (Some v, h))
         | _ \<Rightarrow> Inr (Some v, h))
      else Inl (Panic ''nil pointer dereference''))"

section \<open>Concrete inputs\<close>

text \<open>
  A small world on which the definitions above can be run. In GOPATH the package \<open>app\<close>
  imports \<open>app/b\<close>, \<open>app/c\<close> and \<open>fmt\<close>; \<open>app/b\<close> and \<open>app/c\<close> both import \<open>app/d\<close>, whose test
  imports \<open>app\<close> again. Outside GOPATH the directory \<open>/home/u/hello\<close> holds a main package
  and \<open>/home/u/lib\<close> a package that is not a main package. Paths are joined with a slash,
  the base of a path is what follows its last slash, and no file operation fails.
\<close>

definition mkPackage ::
  "string \<Rightarrow> string \<Rightarrow> string \<Rightarrow> string list \<Rightarrow> string list \<Rightarrow> string list \<Rightarrow> Package" where
  "mkPackage path dir nm imps timps files =
     \<lparr>ImportPath = path, Dir = dir, Name = nm, Imports = imps, TestImports = timps,
      XTestImports = [], GoFiles = files, CgoFiles = [], TestGoFiles = [], XTestGoFiles = []\<rparr>"

definition demo_packages :: "Package list" where
  "demo_packages =
     [mkPackage ''app'' ''/gopath/src/app'' ''main'' [''app/b'', ''app/c'', ''fmt''] [] [''main.go''],
      mkPackage ''app/b'' ''/gopath/src/app/b'' ''b'' [''app/d''] [] [''b.go''],
      mkPackage ''app/c'' ''/gopath/src/app/c'' ''c'' [''app/d''] [] [''c.go''],
      mkPackage ''app/d'' ''/gopath/src/app/d'' ''d'' [] [''app''] [''d.go''],
      mkPackage ''.'' ''/home/u/hello'' ''main'' [] [] [''hello.go''],
      mkPackage ''.'' ''/home/u/lib'' ''lib'' [] [] [''lib.go'']]"

definition demo_find :: "(Package \<Rightarrow> string) \<Rightarrow> string \<Rightarrow> error + Package" where
  "demo_find key s =
     (case filter (\<lambda>p. key p = s) demo_packages of
        [] \<Rightarrow> Inl (Err (''cannot find package '' @ s))
      | p # ps \<Rightarrow> Inr p)"

fun demo_join :: "string list \<Rightarrow> string" where
  "demo_join [] = []"
| "demo_join [a] = a"
| "demo_join (a # b # rest) =
     (if a = [] then demo_join (b # rest)
      else if b = [] then demo_join (a # rest)
      else demo_join ((a @ ''/'' @ b) # rest))"

definition demo_base :: "string \<Rightarrow> string" where
  "demo_base s = rev (takeWhile (\<lambda>c. c \<noteq> CHR ''/'') (rev s))"

definition demo_rel :: "string \<Rightarrow> string \<Rightarrow> error + string" where
  "demo_rel basepath targpath =
     (if basepath = ''/tmp/out'' \<and> HasPrefix targpath ''/'' then Inr (''../..'' @ targpath)
      else Inl (Err ''Rel: cannot make the target relative to the base''))"

definition demo_env :: Env where
  "demo_env =
     \<lparr>build_Import = demo_find ImportPath,
      build_ImportDir = demo_find Dir,
      filepath_Abs = Inr,
      filepath_Base = demo_base,
      filepath_Rel = demo_rel,
      filepath_Join = demo_join,
      guessBasepkg = takeWhile (\<lambda>c. c \<noteq> CHR ''/''),
      ParseFiles = (\<lambda>files. None),
      MkdirAll = (\<lambda>dir. None),
      writeFiles = (\<lambda>i dir files. None)\<rparr>"

definition demo_app :: Instrumentable where
  "demo_app = \<lparr>pkg = demo_packages ! 0, basepkg = ''app'', name = ''app''\<rparr>"

text \<open>
  A stand-in for a flag set of package \<open>flag\<close>: the flags defined so far, each with whether
  it is boolean, the flags set by parsing, and the arguments left over. Parsing stops at
  the first argument that is not a flag; a flag takes its value after \<open>=\<close> or, unless it is
  boolean, from the next argument.
\<close>

record DemoFlagSet =
  formal :: "(string \<times> bool) list"
  actual :: "(string \<times> string) list"
  rest :: "string list"

definition demo_define :: "DemoFlagSet \<Rightarrow> string \<Rightarrow> bool \<Rightarrow> error + DemoFlagSet" where
  "demo_define fs n isbool =
     (if n \<in> fst ` set (formal fs) then Inl (Panic (''flag redefined: '' @ n))
      else Inr (fs\<lparr>formal := formal fs @ [(n, isbool)]\<rparr>))"

fun demo_parse :: "DemoFlagSet \<Rightarrow> string list \<Rightarrow> error + DemoFlagSet" where
  "demo_parse fs [] = Inr (fs\<lparr>rest := []\<rparr>)"
| "demo_parse fs (s # args) =
     (if length s < 2 \<or> hd s \<noteq> CHR ''-'' then Inr (fs\<lparr>rest := s # args\<rparr>)
      else if s = ''--'' then Inr (fs\<lparr>rest := args\<rparr>)
      else
        (let body = (if s ! 1 = CHR ''-'' then drop 2 s else drop 1 s);
             n = takeWhile (\<lambda>c. c \<noteq> CHR ''='') body;
             hasValue = (CHR ''='' \<in> set body);
             v = drop (Suc (length n)) body
         in if n = [] \<or> hd n = CHR ''-'' then Inl (Err (''bad flag syntax: '' @ s))
            else
              (case map_of (formal fs) n of
                 None \<Rightarrow> Inl (Err (''flag provided but not defined: -'' @ n))
               | Some isbool \<Rightarrow>
                   if hasValue then demo_parse (fs\<lparr>actual := actual fs @ [(n, v)]\<rparr>) args
                   else if isbool then
                     demo_parse (fs\<lparr>actual := actual fs @ [(n, ''true'')]\<rparr>) args
                   else
                     (case args of
                        [] \<Rightarrow> Inl (Err (''flag needs an argument: -'' @ n))
                      | a # args' \<Rightarrow>
                          demo_parse (fs\<lparr>actual := actual fs @ [(n, a)]\<rparr>) args'))))"

definition demo_flag :: "DemoFlagSet FlagPkg" where
  "demo_flag =
     \<lparr>fs_Int = (\<lambda>fs n d. demo_define fs n False),
      fs_Bool = (\<lambda>fs n d. demo_define fs n True),
      fs_String = (\<lambda>fs n d. demo_define fs n False),
      fs_Parse = demo_parse,
      fs_Args = rest,
      fs_Visit = actual,
      NumCPU = 4\<rparr>"

definition demo_noflags :: DemoFlagSet where
  "demo_noflags = \<lparr>formal = [], actual = [], rest = []\<rparr>"

definition demo_build :: "string \<Rightarrow> string list \<Rightarrow> GoCmd" where
  "demo_build dir ps =
     \<lparr>WorkDir = dir, Executable = ''go'', Command = ''build'', BuildFlags = Map.empty,
      Params = ps, ExtraFlags = []\<rparr>"

text \<open>
  A visitor that resolves every identifier it visits in the scope it is given, as a pass
  that tracks the use of bindings does, and keeps a list of what it found and of the
  scopes it was told to leave. It never answers \<open>nil\<close>.
\<close>

datatype Event = Resolved string "nat option" "Object option" | Exited "nat option"

definition resolver :: "(unit, Event list) ScopeVisitor" where
  "resolver =
     \<lparr>VisitExpr = (\<lambda>v ss scope e g.
         (Some (),
          (case e of
             IdentExpr i \<Rightarrow> g @ [Resolved (IdName i) scope (Lookup ss scope (IdName i))]
           | _ \<Rightarrow> g))),
      VisitStmt = (\<lambda>v ss scope s g. (Some (), g)),
      ExitScope = (\<lambda>v ss scope g. (Some (), g @ [Exited scope]))\<rparr>"

text \<open>The statement \<open>x := x + 1\<close>, with the object that the parser made for the new \<open>x\<close>,
  in a scope that binds an older \<open>x\<close>.\<close>

definition demo_outer_x :: Object where
  "demo_outer_x = Object Var ''x'' 1"

definition demo_new_x :: Object where
  "demo_new_x = Object Var ''x'' 2"

definition demo_define_x :: Stmt where
  "demo_define_x =
     AssignStmt [IdentExpr (Ident ''x'' (Some demo_new_x))] DEFINE
       [BinaryExpr (IdentExpr (Ident ''x'' (Some demo_outer_x))) (BasicLit ''1'')]"

definition demo_store_x :: "Event list wstate" where
  "demo_store_x =
     \<lparr>scopes = [\<lparr>Outer = None, Objects = [''x'' \<mapsto> demo_outer_x]\<rparr>], vis = []\<rparr>"

text \<open>The loop \<open>for i := range xs { println(i) }\<close>, in an empty scope.\<close>

definition demo_i :: Object where
  "demo_i = Object Var ''i'' 3"

definition demo_range :: Stmt where
  "demo_range =
     RangeStmt (IdentExpr (Ident ''i'' (Some demo_i))) NilExpr DEFINE
       (IdentExpr (Ident ''xs'' None))
       (BlockStmt
          [ExprStmt (CallExpr (IdentExpr (Ident ''println'' None))
                       [IdentExpr (Ident ''i'' (Some demo_i))])])"

definition demo_store_empty :: "Event list wstate" where
  "demo_store_empty = \<lparr>scopes = [\<lparr>Outer = None, Objects = Map.empty\<rparr>], vis = []\<rparr>"

text \<open>A file in which every node is at line 3, column 5 of \<open>f.go\<close>, for the pass for the
  implicit error check, and the statement \<open>x := must(a, b)\<close>.\<close>

definition demo_file :: PatchableFile where
  "demo_file =
     \<lparr>Position = (\<lambda>p. (''f.go'', 3, 5)),
      Get = (\<lambda>e. ''e''),
      ExprPos = (\<lambda>e. 40), ExprEnd = (\<lambda>e. 44),
      StmtPos = (\<lambda>s. 35), StmtEnd = (\<lambda>s. 50), TokPos = (\<lambda>s. 37),
      FileEnd = 100\<rparr>"

definition demo_must2 :: Expr where
  "demo_must2 =
     CallExpr (IdentExpr (Ident ''must'' None))
       [IdentExpr (Ident ''a'' None), IdentExpr (Ident ''b'' None)]"

definition demo_assign_must2 :: Stmt where
  "demo_assign_must2 = AssignStmt [IdentExpr (Ident ''x'' None)] DEFINE [demo_must2]"

text \<open>A scope in which the name \<open>tmp_0\<close> is taken.\<close>

definition demo_store_tmp :: "Scope list" where
  "demo_store_tmp = [\<lparr>Outer = None, Objects = [''tmp_0'' \<mapsto> Object Var ''tmp_0'' 7]\<rparr>]"

section \<open>Properties of the patch list\<close>

lemma HasPrefix_prefix: "HasPrefix s p = prefix p s"
  unfolding HasPrefix_def prefix_def
  by (metis append_eq_conv_conj append_take_drop_id le_add1 length_append)

lemma appendNoContradict_loop_Some:
  "appendNoContradict_loop pl ps toadd = Some r \<Longrightarrow>
     r = pl \<and> (\<exists>p \<in> set ps. contradicts toadd p)"
  by (induction ps) (auto split: if_splits)

lemma appendNoContradict_loop_None:
  "appendNoContradict_loop pl ps toadd = None \<longleftrightarrow> (\<forall>p \<in> set ps. \<not> contradicts toadd p)"
  by (induction ps) auto

text \<open>
  C1. The claim: a proposed patch whose range intersects the range of an accepted patch is
  dropped, so an accepted patch list never holds two overlapping patches. The code tests
  only whether an end point of the new patch lies inside an accepted one. A new patch that
  strictly contains an accepted patch passes the test: with the replacement of offsets 5 to
  6 accepted, the replacement of offsets 3 to 10 is appended, and the two ranges overlap.
\<close>

theorem appendNoContradict_keeps_containing_patch:
  "appendNoContradict [Replace 5 6 ''x''] (Replace 3 10 ''y'')
     = [Replace 5 6 ''x'', Replace 3 10 ''y'']
   \<and> ranges_overlap (Replace 5 6 ''x'') (Replace 3 10 ''y'')"
  by (simp add: appendNoContradict_def contradicts_def ranges_overlap_def)

text \<open>
  C3, as the claim states it, fails: with no base path configured and a package inside
  GOPATH (its import path is not \<open>.\<close>), the second branch is taken with the empty base
  path, which is a prefix of every import, so the import \<open>fmt\<close>, which is not local, is
  relevant.
\<close>

theorem relevantImport_empty_base_counterexample:
  "basepkg \<lparr>pkg = \<lparr>ImportPath = ''a/b'', Dir = ''/gopath/src/a/b'', Name = ''b'',
        Imports = [''fmt''], TestImports = [], XTestImports = [], GoFiles = [],
        CgoFiles = [], TestGoFiles = [], XTestGoFiles = []\<rparr>,
      basepkg = '''', name = ''a/b''\<rparr> = ''''
   \<and> relevantImport \<lparr>pkg = \<lparr>ImportPath = ''a/b'', Dir = ''/gopath/src/a/b'', Name = ''b'',
        Imports = [''fmt''], TestImports = [], XTestImports = [], GoFiles = [],
        CgoFiles = [], TestGoFiles = [], XTestGoFiles = []\<rparr>,
      basepkg = '''', name = ''a/b''\<rparr> ''fmt''
   \<and> \<not> IsLocalImport ''fmt''"
  by (simp add: relevantImport_def IsInGopath_def IsLocalImport_def HasPrefix_def)

text \<open>
  C3, amended. The wildcard base \<open>*\<close> matches every import. Otherwise, when a base path is
  configured or the package lies inside GOPATH, the relevant imports are exactly those of
  which the base path is a prefix and those that are a prefix of the base path (prefixes of
  strings, not of path elements); in particular every import is relevant when the base path
  is empty. Otherwise, with no base path and a package outside GOPATH, the relevant imports
  are exactly the local ones: \<open>.\<close>, \<open>..\<close> and the paths that start with \<open>./\<close> or \<open>../\<close>.
\<close>

theorem relevantImport_precedence:
  "(basepkg i = ''*'' \<longrightarrow> relevantImport i imp)
   \<and> (basepkg i \<noteq> ''*'' \<and> (basepkg i \<noteq> '''' \<or> ImportPath (pkg i) \<noteq> ''.'') \<longrightarrow>
        relevantImport i imp = (prefix (basepkg i) imp \<or> prefix imp (basepkg i)))
   \<and> (basepkg i = '''' \<and> ImportPath (pkg i) \<noteq> ''.'' \<longrightarrow> relevantImport i imp)
   \<and> (basepkg i = '''' \<and> ImportPath (pkg i) = ''.'' \<longrightarrow>
        relevantImport i imp =
          (imp = ''.'' \<or> imp = ''..'' \<or> prefix ''./'' imp \<or> prefix ''../'' imp))"
  by (auto simp: relevantImport_def IsInGopath_def IsLocalImport_def HasPrefix_prefix)

theorem relevantImport_precedence_witness:
  "relevantImport \<lparr>pkg = \<lparr>ImportPath = ''a/b/c'', Dir = ''/gopath/src/a/b/c'', Name = ''c'',
        Imports = [''a/x'', ''a/b''], TestImports = [], XTestImports = [], GoFiles = [],
        CgoFiles = [], TestGoFiles = [], XTestGoFiles = []\<rparr>,
      basepkg = ''a/b'', name = ''a/b/c''\<rparr> ''a/b/c/d''
   \<and> \<not> relevantImport \<lparr>pkg = \<lparr>ImportPath = ''a/b/c'', Dir = ''/gopath/src/a/b/c'', Name = ''c'',
        Imports = [''a/x'', ''a/b''], TestImports = [], XTestImports = [], GoFiles = [],
        CgoFiles = [], TestGoFiles = [], XTestGoFiles = []\<rparr>,
      basepkg = ''a/b'', name = ''a/b/c''\<rparr> ''a/x''"
  using relevantImport_precedence [of "\<lparr>pkg = \<lparr>ImportPath = ''a/b/c'', Dir = ''/gopath/src/a/b/c'', Name = ''c'',
        Imports = [''a/x'', ''a/b''], TestImports = [], XTestImports = [], GoFiles = [],
        CgoFiles = [], TestGoFiles = [], XTestGoFiles = []\<rparr>,
      basepkg = ''a/b'', name = ''a/b/c''\<rparr>" "''a/b/c/d''"]
    relevantImport_precedence [of "\<lparr>pkg = \<lparr>ImportPath = ''a/b/c'', Dir = ''/gopath/src/a/b/c'', Name = ''c'',
        Imports = [''a/x'', ''a/b''], TestImports = [], XTestImports = [], GoFiles = [],
        CgoFiles = [], TestGoFiles = [], XTestGoFiles = []\<rparr>,
      basepkg = ''a/b'', name = ''a/b/c''\<rparr>" "''a/x''"]
  by simp

section \<open>Properties of the closure\<close>

lemma bindE_Inr_iff: "bindE m k = Inr r \<longleftrightarrow> (\<exists>a. m = Inr a \<and> k a = Inr r)"
  by (cases m) (auto simp: bindE_def)

lemma bindE_Inr [simp]: "bindE (Inr a) k = k a"
  by (simp add: bindE_def)

lemma bindE_Inl [simp]: "bindE (Inl e) k = Inl e"
  by (simp add: bindE_def)

lemma grows_refl: "grows st st"
  by (simp add: grows_def)

lemma grows_trans: "grows a b \<Longrightarrow> grows b c \<Longrightarrow> grows a c"
  unfolding grows_def
  apply (elim conjE exE)
  subgoal for n1 n2
    apply (rule conjI, blast)
    apply (rule exI[of _ "n1 @ n2"])
    apply (auto)
    done
  done

lemma instrumentPatchable_step:
  "instrumentPatchable E i outdir relpath fset files st = (r, st') \<Longrightarrow>
     processed st' = processed st \<and>
     (written st' = written st \<or>
      (\<exists>w. written st' = written st @ [w] \<and> w_pkg w = ImportPath (pkg i) \<and> w_set w = fset))"
  by (auto simp: instrumentPatchable_def Let_def split: option.splits)

lemma instrumentFiles_step:
  "instrumentFiles E i istest outdir relpath st = (r, st') \<Longrightarrow>
     processed st' = processed st \<and>
     (\<exists>new. written st' = written st @ new \<and> distinct (map w_set new) \<and>
        (\<forall>w \<in> set new. w_pkg w = ImportPath (pkg i)))"
  unfolding instrumentFiles_def
  apply (auto split: if_splits option.splits prod.splits dest!: instrumentPatchable_step)
  done

lemma grows_mark:
  assumes np: "\<not> processed st p"
    and g: "grows (st\<lparr>processed := (processed st)(p := True)\<rparr>) st1"
  shows "grows st st1"
  using assms unfolding grows_def by (auto split: if_splits)

lemma grows_files:
  assumes np: "\<not> processed st p"
    and g: "grows (st\<lparr>processed := (processed st)(p := True)\<rparr>) st1"
    and f: "processed st' = processed st1"
           "written st' = written st1 @ newp" "distinct (map w_set newp)"
           "\<forall>w \<in> set newp. w_pkg w = p"
  shows "grows st st'"
proof -
  from g obtain new1 where n1: "written st1 = written st @ new1"
      "distinct (map (\<lambda>w. (w_pkg w, w_set w)) new1)"
      "\<forall>w \<in> set new1. w_pkg w \<noteq> p \<and> \<not> processed st (w_pkg w) \<and> processed st1 (w_pkg w)"
      and mono: "\<forall>q. processed st q \<longrightarrow> processed st1 q" and pp: "processed st1 p"
    unfolding grows_def by (auto split: if_splits)
  have d2: "distinct (map (\<lambda>w. (w_pkg w, w_set w)) newp)"
    using f(3) f(4) by (auto simp: distinct_map inj_on_def)
  have disj: "set (map (\<lambda>w. (w_pkg w, w_set w)) new1) \<inter> set (map (\<lambda>w. (w_pkg w, w_set w)) newp) = {}"
    using n1(3) f(4) by auto
  show ?thesis
    unfolding grows_def
    apply (rule conjI)
    using mono f(1) apply simp
    apply (rule exI[of _ "new1 @ newp"])
    using n1 f d2 disj np pp by auto
qed

lemma instrumentTo_grows:
  "(\<forall>r st'. instrumentTo E n i st istest outdir relpath = Some (r, st') \<longrightarrow> grows st st')"
  "(\<forall>r st'. instrumentImports E n i st outdir relpath imps = Some (r, st') \<longrightarrow> grows st st')"
proof (induction E n i st istest outdir relpath and E n i st outdir relpath imps
       rule: instrumentTo_instrumentImports.induct)
  case (1 E i st istest outdir relpath)
  then show ?case by simp
next
  case (2 E n i st istest outdir relpath)
  show ?case
  proof (intro allI impI)
    fix r st'
    assume a: "instrumentTo E (Suc n) i st istest outdir relpath = Some (r, st')"
    show "grows st st'"
    proof (cases "processed st (ImportPath (pkg i))")
      case True
      with a show ?thesis by (simp add: grows_refl)
    next
      case False
      let ?stm = "st\<lparr>processed := (processed st)(ImportPath (pkg i) := True)\<rparr>"
      from a False obtain r1 st1 where
        imp: "instrumentImports E n i ?stm outdir relpath
                (Imports (pkg i) @ TestImports (pkg i) @ XTestImports (pkg i)) = Some (r1, st1)"
        by (auto split: option.splits)
      from 2 False imp have g: "grows ?stm st1" by blast
      show ?thesis
      proof (cases r1)
        case None
        with a False imp have f: "instrumentFiles E i istest outdir relpath st1 = (r, st')"
          by simp
        from instrumentFiles_step[OF f] obtain newp where
          "processed st' = processed st1" "written st' = written st1 @ newp"
          "distinct (map w_set newp)" "\<forall>w \<in> set newp. w_pkg w = ImportPath (pkg i)"
          by blast
        with grows_files[OF False g] show ?thesis by blast
      next
        case (Some err)
        with a False imp have "st' = st1" by simp
        with grows_mark[OF False g] show ?thesis by simp
      qed
    qed
  qed
next
  case (3 E n i st outdir relpath)
  then show ?case by (simp add: grows_refl)
next
  case (4 E n i st outdir relpath imp imps)
  show ?case
  proof (intro allI impI)
    fix r st'
    assume a: "instrumentImports E n i st outdir relpath (imp # imps) = Some (r, st')"
    show "grows st st'"
    proof (cases "relevantImport i imp")
      case False
      with a 4(3) show ?thesis by simp
    next
      case True
      show ?thesis
      proof (cases "doimport E i imp")
        case (Inl err)
        with a True show ?thesis by (simp add: grows_refl)
      next
        case (Inr p)
        let ?rp = "if IsLocalImport imp then filepath_Join E [relpath, imp] else imp"
        from a True Inr obtain r1 st1 where
          c: "instrumentTo E n p st False outdir ?rp = Some (r1, st1)"
          by (auto split: option.splits)
        from 4(1)[OF True Inr] c have g1: "grows st st1" by blast
        show ?thesis
        proof (cases r1)
          case None
          with a True Inr c have
            "instrumentImports E n i st1 outdir relpath imps = Some (r, st')" by simp
          with 4(2)[OF True Inr c] None have "grows st1 st'" by (auto split: if_splits)
          with g1 show ?thesis by (rule grows_trans)
        next
          case (Some err)
          with a True Inr c have "st' = st1" by simp
          with g1 show ?thesis by simp
        qed
      qed
    qed
  qed
qed

lemma doimport_closed:
  assumes "\<forall>s p. build_Import E s = Inr p \<longrightarrow> ImportPath p \<in> U"
    and "\<forall>s p. build_ImportDir E s = Inr p \<longrightarrow> ImportPath p \<in> U"
    and "doimport E q imp = Inr r"
  shows "ImportPath (pkg r) \<in> U"
proof (cases "IsLocalImport imp")
  case True
  with assms(3) obtain p where "build_ImportDir E (filepath_Join E [Dir (pkg q), imp]) = Inr p"
      and "pkg r = p"
    by (auto simp: doimport_def ImportDir_def split: sum.splits)
  with assms(2) show ?thesis by blast
next
  case False
  with assms(3) obtain p where "build_Import E imp = Inr p" and "pkg r = p"
    by (auto simp: doimport_def Import_def split: sum.splits)
  with assms(1) show ?thesis by blast
qed

lemma card_unprocessed_mark:
  assumes "finite U" "p \<in> U" "\<not> processed st p"
  shows "Suc (card (U - {q. processed (st\<lparr>processed := (processed st)(p := True)\<rparr>) q}))
           = card (U - {q. processed st q})"
proof -
  have e: "U - {q. processed (st\<lparr>processed := (processed st)(p := True)\<rparr>) q}
             = (U - {q. processed st q}) - {p}"
    by auto
  have m: "p \<in> U - {q. processed st q}" using assms by simp
  have f: "finite (U - {q. processed st q})" using assms by simp
  show ?thesis unfolding e by (rule card_Suc_Diff1[OF f m])
qed

lemma card_unprocessed_grows:
  assumes "finite U" "grows st st1"
  shows "card (U - {q. processed st1 q}) \<le> card (U - {q. processed st q})"
proof -
  have "U - {q. processed st1 q} \<subseteq> U - {q. processed st q}"
    using assms(2) unfolding grows_def by auto
  then show ?thesis using assms(1) by (simp add: card_mono)
qed

lemma instrumentTo_enough:
  assumes fin: "finite U"
  shows "closedE E U \<longrightarrow> card (U - {p. processed st p}) < n \<longrightarrow>
           (ImportPath (pkg i) \<in> U \<or> processed st (ImportPath (pkg i))) \<longrightarrow>
           instrumentTo E n i st istest outdir relpath \<noteq> None"
    and "closedE E U \<longrightarrow> card (U - {p. processed st p}) < n \<longrightarrow>
           instrumentImports E n i st outdir relpath imps \<noteq> None"
proof (induction E n i st istest outdir relpath and E n i st outdir relpath imps
       rule: instrumentTo_instrumentImports.induct)
  case (1 E i st istest outdir relpath)
  then show ?case by simp
next
  case (2 E n i st istest outdir relpath)
  show ?case
  proof (intro impI)
    assume cl: "closedE E U" and c: "card (U - {p. processed st p}) < Suc n"
      and u: "ImportPath (pkg i) \<in> U \<or> processed st (ImportPath (pkg i))"
    show "instrumentTo E (Suc n) i st istest outdir relpath \<noteq> None"
    proof (cases "processed st (ImportPath (pkg i))")
      case True
      then show ?thesis by simp
    next
      case False
      with u have inU: "ImportPath (pkg i) \<in> U" by simp
      let ?stm = "st\<lparr>processed := (processed st)(ImportPath (pkg i) := True)\<rparr>"
      from card_unprocessed_mark[OF fin inU False] c
      have "card (U - {p. processed ?stm p}) < n" by simp
      with 2[OF False] cl have
        "instrumentImports E n i ?stm outdir relpath
           (Imports (pkg i) @ TestImports (pkg i) @ XTestImports (pkg i)) \<noteq> None"
        by blast
      then obtain x where
        "instrumentImports E n i ?stm outdir relpath
           (Imports (pkg i) @ TestImports (pkg i) @ XTestImports (pkg i)) = Some x"
        by blast
      with False show ?thesis by (cases x) (simp split: option.splits)
    qed
  qed
next
  case (3 E n i st outdir relpath)
  then show ?case by simp
next
  case (4 E n i st outdir relpath imp imps)
  show ?case
  proof (intro impI)
    assume cl: "closedE E U" and c: "card (U - {p. processed st p}) < n"
    show "instrumentImports E n i st outdir relpath (imp # imps) \<noteq> None"
    proof (cases "relevantImport i imp")
      case False
      have "closedE E U \<longrightarrow> card (U - {p. processed st p}) < n \<longrightarrow>
              instrumentImports E n i st outdir relpath imps \<noteq> None"
        using 4(3)[OF False] .
      with cl c
      have "instrumentImports E n i st outdir relpath imps \<noteq> None" by simp
      with False show ?thesis by simp
    next
      case True
      show ?thesis
      proof (cases "doimport E i imp")
        case (Inl err)
        with True show ?thesis by simp
      next
        case (Inr p)
        let ?rp = "if IsLocalImport imp then filepath_Join E [relpath, imp] else imp"
        have "ImportPath (pkg p) \<in> U" using cl Inr unfolding closedE_def by blast
        with 4(1)[OF True Inr] cl c have
          "instrumentTo E n p st False outdir ?rp \<noteq> None" by blast
        then obtain r1 st1 where
          c1: "instrumentTo E n p st False outdir ?rp = Some (r1, st1)"
          by (cases "instrumentTo E n p st False outdir ?rp") auto
        show ?thesis
        proof (cases r1)
          case None
          from instrumentTo_grows(1) c1 have "grows st st1" by blast
          from card_unprocessed_grows[OF fin this] c
          have c2: "card (U - {q. processed st1 q}) < n" by simp
          have "(None, st1) = (r1, st1)" using None by simp
          from 4(2)[OF True Inr c1 this] None cl c2
          have "instrumentImports E n i st1 outdir relpath imps \<noteq> None" by blast
          with True Inr c1 None show ?thesis by simp
        next
          case (Some err)
          with True Inr c1 show ?thesis by simp
        qed
      qed
    qed
  qed
qed

text \<open>
  C2. In one run every package is instrumented at most once, and the traversal of the
  closure ends. Let the import paths of the root and of every package that \<open>go/build\<close> can
  resolve lie in a finite set \<open>U\<close>. Then a depth of calls above the size of \<open>U\<close> is enough for
  \<open>InstrumentTo\<close> to return, whatever the shape of the import graph. In the state it
  returns, no import path has two calls of \<open>instrumentPatchable\<close> for the same set of files,
  every instrumented package is marked in \<open>processed\<close>, and \<open>instrumentTo\<close> on a package
  whose import path is marked returns \<open>nil\<close> at once and leaves the state as it is.
\<close>

theorem instrumentTo_once_and_terminates:
  assumes "finite U" and "ImportPath (pkg i) \<in> U"
    and "\<forall>s p. build_Import E s = Inr p \<longrightarrow> ImportPath p \<in> U"
    and "\<forall>s p. build_ImportDir E s = Inr p \<longrightarrow> ImportPath p \<in> U"
    and "card U < n"
  shows "\<exists>r st. InstrumentTo E n i withtests outdir = Some (r, st)
           \<and> distinct (map (\<lambda>w. (w_pkg w, w_set w)) (written st))
           \<and> (\<forall>w \<in> set (written st). processed st (w_pkg w))
           \<and> (\<forall>j m t rp. processed st (ImportPath (pkg j)) \<longrightarrow>
                 instrumentTo E (Suc m) j st t outdir rp = Some (None, st))"
proof -
  let ?st0 = "\<lparr>processed = (\<lambda>p. False), written = []\<rparr>"
  have c: "card (U - {p. processed ?st0 p}) < n" using assms(5) by simp
  have cl: "closedE E U"
    unfolding closedE_def using doimport_closed[OF assms(3) assms(4)] by blast
  from instrumentTo_enough(1)[OF assms(1), of E ?st0 n i withtests outdir "[]"] cl c assms(2)
  have "instrumentTo E n i ?st0 withtests outdir [] \<noteq> None" by blast
  then obtain r st where s: "instrumentTo E n i ?st0 withtests outdir [] = Some (r, st)"
    by (cases "instrumentTo E n i ?st0 withtests outdir []") auto
  from instrumentTo_grows(1) s have "grows ?st0 st" by blast
  then have "distinct (map (\<lambda>w. (w_pkg w, w_set w)) (written st))"
    and "\<forall>w \<in> set (written st). processed st (w_pkg w)"
    unfolding grows_def by auto
  with s show ?thesis unfolding InstrumentTo_def by auto
qed

lemma demo_run:
  "\<exists>st. InstrumentTo demo_env 6 demo_app False ''/tmp/out'' = Some (None, st) \<and> map w_pkg (written st) = [''app/d'', ''app/b'', ''app/c'', ''app'']"
  by (simp add: InstrumentTo_def eval_nat_numeral demo_app_def demo_packages_def mkPackage_def
        relevantImport_def IsInGopath_def HasPrefix_def doimport_def IsLocalImport_def
        Import_def demo_env_def demo_find_def instrumentFiles_def instrumentPatchable_def
        Files_def Let_def)

lemma demo_find_in: "demo_find key s = Inr p \<Longrightarrow> p \<in> set demo_packages"
proof -
  assume a: "demo_find key s = Inr p"
  then obtain ps where "filter (\<lambda>q. key q = s) demo_packages = p # ps"
    by (auto simp: demo_find_def split: list.splits)
  then have "p \<in> set (filter (\<lambda>q. key q = s) demo_packages)" by simp
  then show ?thesis by simp
qed

text \<open>
  The run on the packages of the example: \<open>app/d\<close> is reached through \<open>app/b\<close> and through
  \<open>app/c\<close> and imports \<open>app\<close> back; each of the four packages is written once.
\<close>

theorem instrumentTo_once_and_terminates_witness:
  "\<exists>r st. InstrumentTo demo_env 6 demo_app False ''/tmp/out'' = Some (r, st)
      \<and> r = None
      \<and> map w_pkg (written st) = [''app/d'', ''app/b'', ''app/c'', ''app'']
      \<and> distinct (map (\<lambda>w. (w_pkg w, w_set w)) (written st))
      \<and> (\<forall>w \<in> set (written st). processed st (w_pkg w))
      \<and> (\<forall>j m t rp. processed st (ImportPath (pkg j)) \<longrightarrow>
            instrumentTo demo_env (Suc m) j st t ''/tmp/out'' rp = Some (None, st))"
proof -
  let ?U = "ImportPath ` set demo_packages"
  have h1: "finite ?U" by simp
  have h2: "ImportPath (pkg demo_app) \<in> ?U"
    by (simp add: demo_app_def demo_packages_def)
  have h3: "\<forall>s p. build_Import demo_env s = Inr p \<longrightarrow> ImportPath p \<in> ?U"
    using demo_find_in by (auto simp: demo_env_def)
  have h4: "\<forall>s p. build_ImportDir demo_env s = Inr p \<longrightarrow> ImportPath p \<in> ?U"
    using demo_find_in by (auto simp: demo_env_def)
  have h5: "card ?U < 6"
    by (simp add: demo_packages_def mkPackage_def)
  from instrumentTo_once_and_terminates[OF h1 h2 h3 h4 h5, of False "''/tmp/out''"]
  obtain r st where
    a: "InstrumentTo demo_env 6 demo_app False ''/tmp/out'' = Some (r, st)"
    and b: "distinct (map (\<lambda>w. (w_pkg w, w_set w)) (written st))"
      "\<forall>w \<in> set (written st). processed st (w_pkg w)"
      "\<forall>j m t rp. processed st (ImportPath (pkg j)) \<longrightarrow>
            instrumentTo demo_env (Suc m) j st t ''/tmp/out'' rp = Some (None, st)"
    by blast
  from demo_run a have c: "r = None" "map w_pkg (written st) = [''app/d'', ''app/b'', ''app/c'', ''app'']"
    by auto
  show ?thesis
    by (intro exI[of _ r] exI[of _ st] conjI) (fact a c b)+
qed

section \<open>Properties of the command line\<close>

text \<open>
  C8. Retargeting a \<open>build\<close> command that has no output flag, when the original working
  directory has the path \<open>rel\<close> relative to the new directory. With more than one parameter
  the result is the error about more than one package. Otherwise the target package is the
  package of the working directory when there is no parameter, and the package named by
  the parameter when there is one; if it is not a main package the result is an error; if
  it is, the new command works in the new directory and its output flag is \<open>rel\<close> joined
  with the base name of the absolute directory of the target package, all else unchanged.
\<close>

theorem Retarget_build_default_output:
  assumes "Command cmd = ''build''"
    and "flag_value (BuildFlags cmd) ''o'' = ''''"
    and "filepath_Rel E newdir (WorkDir cmd) = Inr rel"
  shows "(1 < length (Params cmd) \<longrightarrow>
            Retarget E cmd newdir = Inl (Err ''No support for more than a single package''))
       \<and> (\<forall>p. length (Params cmd) \<le> 1
              \<and> (if Params cmd = [] then build_ImportDir E (WorkDir cmd)
                  else build_Import E (Params cmd ! 0)) = Inr p
              \<and> Name p \<noteq> ''main'' \<longrightarrow>
            (\<exists>msg. Retarget E cmd newdir = Inl (Err msg)))
       \<and> (\<forall>p d. length (Params cmd) \<le> 1
              \<and> (if Params cmd = [] then build_ImportDir E (WorkDir cmd)
                  else build_Import E (Params cmd ! 0)) = Inr p
              \<and> Name p = ''main'' \<and> filepath_Abs E (Dir p) = Inr d \<longrightarrow>
            Retarget E cmd newdir =
              Inr (cmd\<lparr>WorkDir := newdir,
                       BuildFlags := (BuildFlags cmd)(''o'' \<mapsto>
                          filepath_Join E [rel, filepath_Base E d])\<rparr>))"
  using assms
  by (auto simp: Retarget_def getOutputFileName_def)

text \<open>
  From \<open>/home/u/hello\<close> to \<open>/tmp/out\<close> the output becomes \<open>../../home/u/hello/hello\<close>; the
  package in \<open>/home/u/lib\<close> is not a main package; two parameters are refused.
\<close>

theorem Retarget_build_default_output_witness:
  "Retarget demo_env (demo_build ''/home/u/hello'' []) ''/tmp/out''
     = Inr ((demo_build ''/home/u/hello'' [])\<lparr>WorkDir := ''/tmp/out'',
              BuildFlags := [''o'' \<mapsto> ''../../home/u/hello/hello'']\<rparr>)
   \<and> (\<exists>msg. Retarget demo_env (demo_build ''/home/u/lib'' []) ''/tmp/out'' = Inl (Err msg))
   \<and> Retarget demo_env (demo_build ''/home/u/hello'' [''app'', ''app/b'']) ''/tmp/out''
        = Inl (Err ''No support for more than a single package'')"
proof -
  have r: "\<And>d ps. filepath_Rel demo_env ''/tmp/out'' (WorkDir (demo_build (CHR ''/'' # d) ps))
             = Inr (''../../'' @ d)"
    by (simp add: demo_env_def demo_rel_def demo_build_def HasPrefix_def)
  have c: "\<And>d ps. Command (demo_build d ps) = ''build''"
    and f: "\<And>d ps. flag_value (BuildFlags (demo_build d ps)) ''o'' = ''''"
    by (simp_all add: demo_build_def flag_value_def)
  note t1 = Retarget_build_default_output[OF c f r, of "''home/u/hello''" "[]"]
  note t2 = Retarget_build_default_output[OF c f r, of "''home/u/lib''" "[]"]
  note t3 = Retarget_build_default_output[OF c f r, of "''home/u/hello''" "[''app'', ''app/b'']"]
  have p1: "build_ImportDir demo_env ''/home/u/hello'' = Inr (demo_packages ! 4)"
    and p2: "build_ImportDir demo_env ''/home/u/lib'' = Inr (demo_packages ! 5)"
    by (simp_all add: demo_env_def demo_find_def demo_packages_def mkPackage_def)
  have "Retarget demo_env (demo_build ''/home/u/hello'' []) ''/tmp/out''
     = Inr ((demo_build ''/home/u/hello'' [])\<lparr>WorkDir := ''/tmp/out'',
              BuildFlags := [''o'' \<mapsto> ''../../home/u/hello/hello'']\<rparr>)"
    using t1 p1
    by (simp add: demo_build_def demo_env_def demo_packages_def mkPackage_def demo_base_def)
  moreover have "\<exists>msg. Retarget demo_env (demo_build ''/home/u/lib'' []) ''/tmp/out'' = Inl (Err msg)"
    using t2 p2
    by (simp add: demo_build_def demo_packages_def mkPackage_def)
  moreover have "Retarget demo_env (demo_build ''/home/u/hello'' [''app'', ''app/b'']) ''/tmp/out''
        = Inl (Err ''No support for more than a single package'')"
    using t3 by (simp add: demo_build_def)
  ultimately show ?thesis by blast
qed

text \<open>
  C10. A command that \<open>NewGoCmdWithFlags\<close> builds for the verb \<open>build\<close> has no parameters
  and no extra flags: the case that would copy the arguments left after the flags is
  spelled \<open>buid\<close> and is never taken. The default output name of such a command is
  therefore computed from the package of the working directory.
\<close>

theorem NewGoCmdWithFlags_build_Params_empty:
  assumes "NewGoCmdWithFlags F flags cl workdir args = Inr (cmd, flags', cl')"
    and "args ! 1 = ''build''"
  shows "Params cmd = [] \<and> ExtraFlags cmd = [] \<and> WorkDir cmd = workdir
       \<and> getOutputFileName E cmd =
           bindE (build_ImportDir E workdir) (\<lambda>p.
             if Name p \<noteq> ''main'' then
               Inl (Err ''gosloppy should be used for testing packages or producing executables, not for building packages'')
             else bindE (filepath_Abs E (Dir p)) (\<lambda>d. Inr (filepath_Base E d)))"
proof -
  from assms have "Params cmd = [] \<and> ExtraFlags cmd = [] \<and> WorkDir cmd = workdir"
    by (auto simp: NewGoCmdWithFlags_def bindE_Inr_iff split: if_splits)
  then show ?thesis by (simp add: getOutputFileName_def)
qed

text \<open>
  \<open>go build -v app/b\<close> in \<open>/home/u/hello\<close>: the argument \<open>app/b\<close> is left after the flags and
  is not among the parameters; the output name is \<open>hello\<close>.
\<close>

theorem NewGoCmdWithFlags_build_Params_empty_witness:
  "\<exists>cmd flags' cl'.
      NewGoCmdWithFlags demo_flag demo_noflags demo_noflags ''/home/u/hello''
        [''go'', ''build'', ''-v'', ''app/b''] = Inr (cmd, flags', cl')
    \<and> fs_Args demo_flag flags' = [''app/b'']
    \<and> Params cmd = []
    \<and> getOutputFileName demo_env cmd = Inr ''hello''"
proof -
  have e: "\<exists>cmd flags' cl'.
      NewGoCmdWithFlags demo_flag demo_noflags demo_noflags ''/home/u/hello''
        [''go'', ''build'', ''-v'', ''app/b''] = Inr (cmd, flags', cl')
      \<and> fs_Args demo_flag flags' = [''app/b'']"
    by (simp add: NewGoCmdWithFlags_def demo_flag_def demo_noflags_def demo_define_def
          SearchStrings_def Let_def)
  then obtain cmd flags' cl' where
    a: "NewGoCmdWithFlags demo_flag demo_noflags demo_noflags ''/home/u/hello''
        [''go'', ''build'', ''-v'', ''app/b''] = Inr (cmd, flags', cl')"
    and b: "fs_Args demo_flag flags' = [''app/b'']"
    by blast
  have n: "[''go'', ''build'', ''-v'', ''app/b''] ! 1 = ''build''" by simp
  from NewGoCmdWithFlags_build_Params_empty[OF a n, of demo_env]
  have "Params cmd = [] \<and> getOutputFileName demo_env cmd = Inr ''hello''"
    by (simp add: demo_env_def demo_find_def demo_packages_def mkPackage_def demo_base_def)
  with a b show ?thesis by blast
qed

end
